theory Spec2Isabelle
  imports Complex_Main "HOL-Library.List_Lexorder"
begin

section \<open>Strings, dictionaries and rounding\<close>

text \<open>
  A Python \<open>str\<close> is a sequence of Unicode code points, and \<open>len\<close> counts code points:
  the two-character Chinese keywords of the lexicons have length 2 and therefore take the
  short-keyword branch of the scorer. Strings are modelled as lists of code points;
  \<open>asc\<close> embeds an ASCII literal.
\<close>

type_synonym ustr = "nat list"

definition asc :: "string \<Rightarrow> ustr" where
  "asc s = map of_char s"

text \<open>\<open>t.startswith(w)\<close> and the substring test \<open>w in t\<close>.\<close>

definition startswith :: "ustr \<Rightarrow> ustr \<Rightarrow> bool" where
  "startswith t w = (take (length w) t = w)"

fun str_in :: "ustr \<Rightarrow> ustr \<Rightarrow> bool" where
  "str_in w [] = (w = [])"
| "str_in w (c # cs) = (startswith (c # cs) w \<or> str_in w cs)"

text \<open>
  \<open>t.count(w)\<close>: the number of non-overlapping occurrences, scanning from the left.
  After a match the scan resumes behind it; \<open>skip\<close> counts the characters of the last
  match still to pass. For the empty needle Python answers \<open>len(t) + 1\<close>.
\<close>

fun count_from :: "nat \<Rightarrow> ustr \<Rightarrow> ustr \<Rightarrow> nat" where
  "count_from skip w [] = 0"
| "count_from skip w (c # cs) =
     (if skip = 0 \<and> startswith (c # cs) w
      then Suc (count_from (length w - 1) w cs)
      else count_from (skip - 1) w cs)"

definition str_count :: "ustr \<Rightarrow> ustr \<Rightarrow> nat" where
  "str_count t w = (if w = [] then length t + 1 else count_from 0 w t)"

text \<open>\<open>sep.join(xs)\<close>.\<close>

fun join :: "ustr \<Rightarrow> ustr list \<Rightarrow> ustr" where
  "join sep [] = []"
| "join sep [x] = x"
| "join sep (x # y # ys) = x @ sep @ join sep (y # ys)"

text \<open>
  Three things are fixed by the Python runtime and not by the repository: the case
  mapping behind \<open>str.lower\<close>, the class \<open>\w\<close> of word characters behind the regular
  expression anchor \<open>\b\<close> (both from the Unicode character database), and the order in
  which \<open>list(set(xs))\<close> lists a set of strings (strings are hashed with a seed drawn
  per process). They are parameters of the model. Nothing is assumed of the first two;
  of the third the theorems assume only that it lists every element of its argument
  exactly once.
\<close>

record platform =
  str_lower :: "ustr \<Rightarrow> ustr"
  is_word :: "nat \<Rightarrow> bool"
  set_order :: "ustr list \<Rightarrow> ustr list"

definition valid_set_order :: "(ustr list \<Rightarrow> ustr list) \<Rightarrow> bool" where
  "valid_set_order f = (\<forall>xs. distinct (f xs) \<and> set (f xs) = set xs)"

text \<open>
  An instance for evaluating the model on concrete inputs. Its case mapping and word
  class are exact on texts made of ASCII characters and CJK unified ideographs (U+4E00 to
  U+9FFF, which have no case and are word characters).
\<close>

definition basic_lower :: "ustr \<Rightarrow> ustr" where
  "basic_lower s = map (\<lambda>c. if 65 \<le> c \<and> c \<le> 90 then c + 32 else c) s"

definition basic_word :: "nat \<Rightarrow> bool" where
  "basic_word c = ((48 \<le> c \<and> c \<le> 57) \<or> (65 \<le> c \<and> c \<le> 90) \<or> c = 95
                    \<or> (97 \<le> c \<and> c \<le> 122) \<or> (19968 \<le> c \<and> c \<le> 40959))"

definition basic_platform :: platform where
  "basic_platform = \<lparr>str_lower = basic_lower, is_word = basic_word, set_order = remdups\<rparr>"

text \<open>
  \<open>len(re.findall(r'\b' + re.escape(w) + r'\b', t))\<close>. The anchor \<open>\b\<close> holds at a
  position when exactly one of the two neighbouring characters is a word character, the
  outside of the text counting as a non-word character. \<open>findall\<close> reports
  non-overlapping matches from the left; a candidate that fails an anchor is passed by one
  character. An empty pattern word matches (emptily) at every anchor position.
\<close>

definition nth_opt :: "'a list \<Rightarrow> nat \<Rightarrow> 'a option" where
  "nth_opt xs i = (if i < length xs then Some (xs ! i) else None)"

definition word_boundary :: "(nat \<Rightarrow> bool) \<Rightarrow> nat option \<Rightarrow> nat option \<Rightarrow> bool" where
  "word_boundary isw left right =
     ((case left of None \<Rightarrow> False | Some c \<Rightarrow> isw c)
        \<noteq> (case right of None \<Rightarrow> False | Some c \<Rightarrow> isw c))"

fun findall_from :: "(nat \<Rightarrow> bool) \<Rightarrow> nat \<Rightarrow> nat option \<Rightarrow> ustr \<Rightarrow> ustr \<Rightarrow> nat" where
  "findall_from isw skip prev w [] = 0"
| "findall_from isw skip prev w (c # cs) =
     (if skip = 0 \<and> startswith (c # cs) w \<and> word_boundary isw prev (Some c)
           \<and> word_boundary isw (Some (last w)) (nth_opt (c # cs) (length w))
      then Suc (findall_from isw (length w - 1) (Some c) w cs)
      else findall_from isw (skip - 1) (Some c) w cs)"

definition re_findall_word :: "(nat \<Rightarrow> bool) \<Rightarrow> ustr \<Rightarrow> ustr \<Rightarrow> nat" where
  "re_findall_word isw w t =
     (if w = []
      then length (filter (\<lambda>p. word_boundary isw (if p = 0 then None else nth_opt t (p - 1))
                                     (nth_opt t p)) [0..<Suc (length t)])
      else findall_from isw 0 None w t)"

text \<open>
  A Python \<open>dict\<close> keeps its keys in insertion order, and that order is visible (in
  \<open>sorted\<close>, which is stable, and in \<open>max\<close>, which returns the first maximum). A
  dictionary is an association list with distinct keys: \<open>dict_set\<close> overwrites in place
  or appends, \<open>dict_get\<close> is \<open>d.get(k, default)\<close>.
\<close>

type_synonym ('k, 'v) dict = "('k \<times> 'v) list"

fun dict_set :: "('k, 'v) dict \<Rightarrow> 'k \<Rightarrow> 'v \<Rightarrow> ('k, 'v) dict" where
  "dict_set [] k v = [(k, v)]"
| "dict_set ((k', v') # d) k v = (if k' = k then (k, v) # d else (k', v') # dict_set d k v)"

definition dict_get :: "('k, 'v) dict \<Rightarrow> 'k \<Rightarrow> 'v \<Rightarrow> 'v" where
  "dict_get d k dflt = (case map_of d k of None \<Rightarrow> dflt | Some v \<Rightarrow> v)"

definition has_key :: "('k, 'v) dict \<Rightarrow> 'k \<Rightarrow> bool" where
  "has_key d k = (map_of d k \<noteq> None)"

definition dict_values :: "('k, 'v) dict \<Rightarrow> 'v list" where
  "dict_values d = map snd d"

text \<open>
  \<open>sorted(items, key=f, reverse=True)\<close> is a stable sort by descending key: elements
  with equal keys keep their order. That is the stable ascending sort by the negated key.
\<close>

definition sorted_desc :: "('a \<Rightarrow> real) \<Rightarrow> 'a list \<Rightarrow> 'a list" where
  "sorted_desc f xs = sort_key (\<lambda>x. - f x) xs"

text \<open>
  Floating-point numbers are modelled as real numbers. \<open>round(x, 3)\<close> rounds to the
  nearest multiple of one thousandth, a tie going to the even neighbour. (On doubles
  Python rounds the exact binary value, so the two agree except where the exact quotient
  is a decimal tie that no double represents.)
\<close>

definition round_half_even :: "real \<Rightarrow> int" where
  "round_half_even x =
     (let f = \<lfloor>x\<rfloor>; d = x - of_int f
      in if d < 1 / 2 then f else if d > 1 / 2 then f + 1 else if even f then f else f + 1)"

definition round3 :: "real \<Rightarrow> real" where
  "round3 x = of_int (round_half_even (x * 1000)) / 1000"

section \<open>The crawler: emotion scorer and tag generator\<close>

subsection \<open>Lexicons and tables\<close>

text \<open>\<open>self.emotion_lexicon\<close>, in the order of the dictionary literal.\<close>

definition emotion_lexicon :: "(ustr \<times> ustr list) list" where
  "emotion_lexicon =
  [  (asc ''joy'',
     [asc ''happy'', asc ''joy'', asc ''fun'', asc ''funny'', asc ''laughter'', asc ''smile'',
      asc ''cheerful'', asc ''delight'', asc ''euphoria'', asc ''bliss'', asc ''elation'',
      asc ''glee'', [21916, 21095], [27426, 20048], [24320, 24515], [24841, 24555]]),
   (asc ''sadness'',
     [asc ''sad'', asc ''sadness'', asc ''grief'', asc ''sorrow'', asc ''melancholy'',
      asc ''depression'', asc ''tear'', asc ''cry'', asc ''mourn'', asc ''heartbreak'',
      asc ''despair'', asc ''misery'', [24754, 21095], [24754, 20260], [38590, 36807],
      [24551, 37057]]),
   (asc ''anger'',
     [asc ''anger'', asc ''angry'', asc ''rage'', asc ''fury'', asc ''wrath'', asc ''outrage'',
      asc ''frustration'', asc ''resentment'', asc ''hostility'', asc ''irritation'',
      asc ''annoyance'', [24868, 24594], [29983, 27668], [24594, 28779]]),
   (asc ''fear'',
     [asc ''fear'', asc ''scary'', asc ''terror'', asc ''horror'', asc ''dread'', asc ''panic'',
      asc ''anxiety'', asc ''fright'', asc ''apprehension'', asc ''trepidation'', asc ''phobia'',
      [24656, 24807], [24656, 24598], [23475, 24597]]),
   (asc ''love'',
     [asc ''love'', asc ''romance'', asc ''passion'', asc ''affection'', asc ''adore'',
      asc ''cherish'', asc ''devotion'', asc ''intimacy'', asc ''tenderness'', asc ''fondness'',
      asc ''infatuation'', [29233, 24773], [28010, 28459], [28201, 39336], [29980, 34588]]),
   (asc ''hope'',
     [asc ''hope'', asc ''hopeful'', asc ''optimism'', asc ''faith'', asc ''confidence'',
      asc ''expectation'', asc ''aspiration'', asc ''dream'', asc ''wish'', asc ''anticipation'',
      [24076, 26395], [26790, 24819], [26399, 24453]]),
   (asc ''loneliness'',
     [asc ''lonely'', asc ''loneliness'', asc ''isolated'', asc ''solitude'', asc ''alone'',
      asc ''abandoned'', asc ''desolate'', asc ''secluded'', asc ''forsaken'', [23396, 29420],
      [23396, 21333], [23490, 23518]]),
   (asc ''inspiration'',
     [asc ''inspire'', asc ''inspiring'', asc ''motivation'', asc ''encouraging'',
      asc ''uplifting'', asc ''empowering'', asc ''moving'', asc ''touching'', [21169, 24535],
      [40723, 33310], [28608, 21169]]),
   (asc ''tension'',
     [asc ''tense'', asc ''tension'', asc ''suspense'', asc ''thrilling'', asc ''nerve-racking'',
      asc ''nail-biting'', asc ''edge-of-seat'', asc ''anxious'', asc ''stressful'',
      [32039, 24352], [24748, 30097], [24778, 24730]]),
   (asc ''peace'',
     [asc ''peace'', asc ''peaceful'', asc ''calm'', asc ''serene'', asc ''tranquil'',
      asc ''relaxed'', asc ''quiet'', asc ''soothing'', asc ''placid'', asc ''composed'',
      [24179, 38745], [23433, 23425], [23425, 38745]])]"

text \<open>
  The tables local to \<open>fallback_emotion_analysis\<close>: the extended lexicon, the map from
  genres to emotions and the scores of the known titles.
\<close>

definition extended_emotion_lexicon :: "(ustr \<times> ustr list) list" where
  "extended_emotion_lexicon =
  [  (asc ''joy'',
     [asc ''happy'', asc ''joy'', asc ''fun'', asc ''funny'', asc ''laughter'', asc ''smile'',
      asc ''cheerful'', asc ''delight'', asc ''euphoria'', asc ''bliss'', asc ''elation'',
      asc ''glee'', asc ''comic'', asc ''humor'', asc ''lighthearted'', [21916, 21095],
      [27426, 20048], [24320, 24515], [24841, 24555], [25630, 31505], [24189, 40664]]),
   (asc ''sadness'',
     [asc ''sad'', asc ''sadness'', asc ''grief'', asc ''sorrow'', asc ''melancholy'',
      asc ''depression'', asc ''tear'', asc ''cry'', asc ''mourn'', asc ''heartbreak'',
      asc ''despair'', asc ''misery'', asc ''tragedy'', asc ''loss'', asc ''death'',
      asc ''dying'', asc ''grave'', asc ''funeral'', [24754, 21095], [24754, 20260],
      [38590, 36807]]),
   (asc ''anger'',
     [asc ''anger'', asc ''angry'', asc ''rage'', asc ''fury'', asc ''wrath'', asc ''outrage'',
      asc ''frustration'', asc ''resentment'', asc ''hostility'', asc ''irritation'',
      asc ''annoyance'', asc ''violence'', asc ''fight'', asc ''war'', asc ''conflict'',
      asc ''battle'', [24868, 24594], [29983, 27668], [24594, 28779], [26292, 21147]]),
   (asc ''fear'',
     [asc ''fear'', asc ''scary'', asc ''terror'', asc ''horror'', asc ''dread'', asc ''panic'',
      asc ''anxiety'', asc ''fright'', asc ''apprehension'', asc ''trepidation'', asc ''phobia'',
      asc ''monster'', asc ''ghost'', asc ''haunted'', asc ''supernatural'', [24656, 24807],
      [24656, 24598], [23475, 24597], [24778, 21523]]),
   (asc ''love'',
     [asc ''love'', asc ''romance'', asc ''passion'', asc ''affection'', asc ''adore'',
      asc ''cherish'', asc ''devotion'', asc ''intimacy'', asc ''tenderness'', asc ''fondness'',
      asc ''infatuation'', asc ''relationship'', asc ''couple'', asc ''marriage'',
      asc ''wedding'', [29233, 24773], [28010, 28459], [28201, 39336]]),
   (asc ''hope'',
     [asc ''hope'', asc ''hopeful'', asc ''optimism'', asc ''faith'', asc ''confidence'',
      asc ''expectation'', asc ''aspiration'', asc ''dream'', asc ''wish'', asc ''anticipation'',
      asc ''future'', asc ''better'', asc ''improve'', asc ''recover'', asc ''heal'',
      [24076, 26395], [26790, 24819], [26399, 24453], [20449, 24565]]),
   (asc ''loneliness'',
     [asc ''lonely'', asc ''loneliness'', asc ''isolated'', asc ''solitude'', asc ''alone'',
      asc ''abandoned'', asc ''desolate'', asc ''secluded'', asc ''forsaken'', [23396, 29420],
      [23396, 21333]]),
   (asc ''tension'',
     [asc ''tense'', asc ''tension'', asc ''suspense'', asc ''thrilling'', asc ''nerve-racking'',
      asc ''nail-biting'', asc ''edge-of-seat'', asc ''anxious'', asc ''stressful'',
      [32039, 24352], [24748, 30097]]),
   (asc ''peace'',
     [asc ''peace'', asc ''peaceful'', asc ''calm'', asc ''serene'', asc ''tranquil'',
      asc ''relaxed'', asc ''quiet'', asc ''soothing'', asc ''placid'', asc ''composed'',
      [24179, 38745], [23433, 23425], [23425, 38745]]),
   (asc ''inspiration'',
     [asc ''inspire'', asc ''inspiring'', asc ''motivation'', asc ''encouraging'',
      asc ''uplifting'', asc ''empowering'', asc ''moving'', asc ''touching'', [21169, 24535],
      [40723, 33310]])]"

definition genre_emotion_map :: "(ustr \<times> ustr) list" where
  "genre_emotion_map =
   [([21916, 21095], asc ''joy''), ([21916, 21095, 29255], asc ''joy''),
    (asc ''Comedy'', asc ''joy''), ([21095, 24773], asc ''sadness''),
    ([21095, 24773, 29255], asc ''sadness''), (asc ''Drama'', asc ''sadness''),
    ([24656, 24598], asc ''fear''), ([24656, 24598, 29255], asc ''fear''),
    (asc ''Horror'', asc ''fear''), ([29233, 24773], asc ''love''),
    ([29233, 24773, 29255], asc ''love''), (asc ''Romance'', asc ''love''),
    ([31185, 24187], asc ''hope''), ([31185, 24187, 29255], asc ''hope''),
    (asc ''Science Fiction'', asc ''hope''), ([24778, 24730], asc ''tension''),
    ([24778, 24730, 29255], asc ''tension''), (asc ''Thriller'', asc ''tension''),
    ([21160, 20316], asc ''tension''), ([21160, 20316, 29255], asc ''tension''),
    (asc ''Action'', asc ''tension''), ([20882, 38505], asc ''joy''),
    ([20882, 38505, 29255], asc ''joy''), (asc ''Adventure'', asc ''joy''),
    ([21160, 30011], asc ''joy''), ([21160, 30011, 29255], asc ''joy''),
    (asc ''Animation'', asc ''joy''), ([23478, 24237], asc ''joy''),
    ([23478, 24237, 29255], asc ''joy''), (asc ''Family'', asc ''joy''),
    ([25112, 20105], asc ''fear''), ([25112, 20105, 29255], asc ''fear''),
    (asc ''War'', asc ''fear''), ([29359, 32618], asc ''anger''),
    ([29359, 32618, 29255], asc ''anger''), (asc ''Crime'', asc ''anger''),
    ([24748, 30097], asc ''tension''), ([24748, 30097, 29255], asc ''tension''),
    (asc ''Mystery'', asc ''tension'')]"

definition known_movie_emotions :: "(ustr \<times> (ustr \<times> nat) list) list" where
  "known_movie_emotions =
  [  ([25945, 29238],
     [(asc ''tension'', 3), (asc ''anger'', 2), (asc ''sadness'', 2)]),
   ([25945, 29238, 50],
     [(asc ''tension'', 3), (asc ''anger'', 2), (asc ''sadness'', 3)]),
   ([36763, 24503, 21202, 30340, 21517, 21333],
     [(asc ''sadness'', 4), (asc ''hope'', 2), (asc ''inspiration'', 3)]),
   ([32918, 30003, 20811, 30340, 25937, 36174],
     [(asc ''hope'', 4), (asc ''sadness'', 2), (asc ''inspiration'', 3)]),
   ([30423, 26790, 31354, 38388],
     [(asc ''tension'', 3), (asc ''hope'', 2), (asc ''fear'', 1)]),
   ([38463, 29976, 27491, 20256],
     [(asc ''hope'', 3), (asc ''joy'', 2), (asc ''inspiration'', 3)]),
   ([27888, 22374, 23612, 20811, 21495],
     [(asc ''love'', 4), (asc ''sadness'', 3), (asc ''fear'', 2)]),
   ([32654, 20029, 20154, 29983],
     [(asc ''hope'', 3), (asc ''joy'', 2), (asc ''sadness'', 3)]),
   ([38050, 29748, 23478],
     [(asc ''sadness'', 4), (asc ''fear'', 3), (asc ''hope'', 2)]),
   ([25327, 25937, 22823, 20853, 29790, 24681],
     [(asc ''fear'', 3), (asc ''anger'', 2), (asc ''hope'', 2)]),
   ([25351, 29615, 29579],
     [(asc ''hope'', 3), (asc ''joy'', 2), (asc ''tension'', 2)]),
   ([21704, 21033, 27874, 29305],
     [(asc ''joy'', 3), (asc ''fear'', 2), (asc ''hope'', 2)]),
   ([26143, 29699, 22823, 25112],
     [(asc ''hope'', 3), (asc ''joy'', 2), (asc ''tension'', 2)]),
   ([40657, 23458, 24093, 22269],
     [(asc ''tension'', 3), (asc ''hope'', 2), (asc ''fear'', 1)]),
   ([27785, 40664, 30340, 32660, 32650],
     [(asc ''fear'', 4), (asc ''tension'', 3), (asc ''anger'', 1)]),
   ([20302, 20439, 23567, 35828],
     [(asc ''joy'', 3), (asc ''tension'', 2), (asc ''anger'', 1)]),
   ([39134, 36234, 30127, 20154, 38498],
     [(asc ''hope'', 3), (asc ''sadness'', 2), (asc ''anger'', 2)]),
   ([38378, 28789],
     [(asc ''fear'', 4), (asc ''tension'', 3), (asc ''anger'', 1)]),
   ([20844, 27665, 20975, 24681],
     [(asc ''sadness'', 3), (asc ''anger'', 2), (asc ''hope'', 1)]),
   ([19971, 27494, 22763],
     [(asc ''tension'', 3), (asc ''hope'', 2), (asc ''sadness'', 2)])]"

subsection \<open>Tag generator\<close>

text \<open>
  \<open>generate_mood_tags\<close>. An empty profile returns the three generic tags at once. The
  tag texts are Chinese; the two prefixes mean "very" and "somewhat".
\<close>

definition generic_tags :: "ustr list" where
  "generic_tags = [[24773, 24863, 20016, 23500], [24341, 20154, 28145, 24605],
                   [20540, 24471, 19968, 30475]]"

definition base_tag :: "ustr \<times> real \<Rightarrow> ustr list" where
  "base_tag item =
     (if snd item \<ge> 15 / 100 then [[38750, 24120] @ fst item]
      else if snd item \<ge> 5 / 100 then [[26377, 20123] @ fst item]
      else [])"

text \<open>\<open>max(emotion_profile.items(), key=lambda x: x[1])\<close>: the first item of maximal score.\<close>

fun max_item :: "ustr \<times> real \<Rightarrow> (ustr \<times> real) list \<Rightarrow> ustr \<times> real" where
  "max_item best [] = best"
| "max_item best (x # xs) = max_item (if snd x > snd best then x else best) xs"

definition filler_tags :: "ustr \<Rightarrow> ustr list" where
  "filler_tags max_emotion =
     (if max_emotion \<in> set [asc ''joy'', asc ''love'']
      then [[24773, 24863, 20016, 23500], [20540, 24471, 25512, 33616]]
      else if max_emotion \<in> set [asc ''sadness'', asc ''fear'', asc ''tension'']
      then [[24341, 20154, 28145, 24605], [24773, 24863, 24378, 28872]]
      else [[24773, 24863, 30495, 25370], [20540, 24471, 19968, 30475]])"

definition combination_tags :: "(ustr, real) dict \<Rightarrow> ustr list" where
  "combination_tags emotion_profile =
     (if has_key emotion_profile (asc ''joy'') \<and> has_key emotion_profile (asc ''love'')
         \<and> dict_get emotion_profile (asc ''joy'') 0 > 1 / 10
         \<and> dict_get emotion_profile (asc ''love'') 0 > 1 / 10
      then [[28201, 26262, 27835, 24840]] else [])
     @ (if has_key emotion_profile (asc ''sadness'') \<and> has_key emotion_profile (asc ''hope'')
         \<and> dict_get emotion_profile (asc ''sadness'') 0 > 1 / 10
         \<and> dict_get emotion_profile (asc ''hope'') 0 > 5 / 100
      then [[24754, 20260, 20294, 20805, 28385, 24076, 26395]] else [])
     @ (if has_key emotion_profile (asc ''fear'')
         \<and> dict_get emotion_profile (asc ''fear'') 0 > 15 / 100
      then [[32039, 24352, 21050, 28608]] else [])
     @ (if has_key emotion_profile (asc ''peace'')
         \<and> dict_get emotion_profile (asc ''peace'') 0 > 1 / 10
      then [[24515, 28789, 24179, 38745]] else [])
     @ (if has_key emotion_profile (asc ''inspiration'')
         \<and> dict_get emotion_profile (asc ''inspiration'') 0 > 1 / 10
      then [[21169, 24535, 24863, 20154]] else [])"

definition generate_mood_tags :: "platform \<Rightarrow> (ustr, real) dict \<Rightarrow> ustr list" where
  "generate_mood_tags P emotion_profile =
     (case emotion_profile of
        [] \<Rightarrow> generic_tags
      | first # others \<Rightarrow>
          (let tags = concat (map base_tag emotion_profile) @ combination_tags emotion_profile;
               tags = (if length tags < 2
                       then tags @ filler_tags (fst (max_item first others))
                       else tags)
           in take 6 (set_order P tags)))"

subsection \<open>Emotion scorer\<close>

text \<open>
  The primary pass of \<open>analyze_movie_emotion\<close>. A keyword of at most three characters
  is counted by the anchored regular expression; a longer one by \<open>str.count\<close>, twice if
  it has more than four characters. A category enters \<open>emotion_scores\<close> only with a
  positive score, and \<open>total_score\<close> is accumulated beside it.
\<close>

definition keyword_score :: "platform \<Rightarrow> ustr \<Rightarrow> ustr \<Rightarrow> nat" where
  "keyword_score P combined_text word =
     (if length word \<le> 3 then re_findall_word (is_word P) word combined_text
      else str_count combined_text word * (if length word > 4 then 2 else 1))"

definition category_score :: "platform \<Rightarrow> ustr \<Rightarrow> ustr list \<Rightarrow> nat" where
  "category_score P combined_text emotion_words =
     sum_list (map (keyword_score P combined_text) emotion_words)"

fun primary_scores ::
  "platform \<Rightarrow> ustr \<Rightarrow> (ustr \<times> ustr list) list \<Rightarrow> (ustr, nat) dict \<times> nat \<Rightarrow> (ustr, nat) dict \<times> nat" where
  "primary_scores P combined_text [] state = state"
| "primary_scores P combined_text ((emotion, emotion_words) # rest) (emotion_scores, total_score) =
     (let score = category_score P combined_text emotion_words
      in if score > 0
         then primary_scores P combined_text rest
                (dict_set emotion_scores emotion score, total_score + score)
         else primary_scores P combined_text rest (emotion_scores, total_score))"

text \<open>
  \<open>fallback_emotion_analysis\<close>, strategy by strategy, each working on the
  \<open>emotion_scores\<close> left by the ones before it.

  Strategy 1 tests each word of the extended lexicon for presence in the lower-cased
  tagline and overview (the keywords are not part of this text).
\<close>

definition extended_word_score :: "ustr \<Rightarrow> ustr \<Rightarrow> nat" where
  "extended_word_score title_text word =
     (if str_in word title_text then (if length word > 4 then 2 else 1) else 0)"

fun extended_scores :: "ustr \<Rightarrow> (ustr \<times> ustr list) list \<Rightarrow> (ustr, nat) dict \<Rightarrow> (ustr, nat) dict" where
  "extended_scores title_text [] emotion_scores = emotion_scores"
| "extended_scores title_text ((emotion, words) # rest) emotion_scores =
     (let score = sum_list (map (extended_word_score title_text) words)
      in extended_scores title_text rest
           (if score > 0 then dict_set emotion_scores emotion score else emotion_scores))"

text \<open>Strategy 2: two points for every genre that the table maps to an emotion.\<close>

fun genre_scores :: "ustr list \<Rightarrow> (ustr, nat) dict \<Rightarrow> (ustr, nat) dict" where
  "genre_scores [] emotion_scores = emotion_scores"
| "genre_scores (genre # rest) emotion_scores =
     (case map_of genre_emotion_map genre of
        None \<Rightarrow> genre_scores rest emotion_scores
      | Some emotion \<Rightarrow>
          if emotion \<noteq> []
          then genre_scores rest
                 (dict_set emotion_scores emotion (dict_get emotion_scores emotion 0 + 2))
          else genre_scores rest emotion_scores)"

text \<open>
  Strategy 3: the first known title that occurs in the lower-cased overview adds its
  scores to \<open>emotion_scores\<close>; the loop breaks there.
\<close>

fun add_scores :: "(ustr \<times> nat) list \<Rightarrow> (ustr, nat) dict \<Rightarrow> (ustr, nat) dict" where
  "add_scores [] emotion_scores = emotion_scores"
| "add_scores ((emotion, score) # rest) emotion_scores =
     add_scores rest (dict_set emotion_scores emotion (dict_get emotion_scores emotion 0 + score))"

fun known_movie_scores ::
  "ustr \<Rightarrow> (ustr \<times> (ustr \<times> nat) list) list \<Rightarrow> (ustr, nat) dict \<Rightarrow> (ustr, nat) dict" where
  "known_movie_scores title_lower [] emotion_scores = emotion_scores"
| "known_movie_scores title_lower ((known_title, emotions) # rest) emotion_scores =
     (if str_in known_title title_lower then add_scores emotions emotion_scores
      else known_movie_scores title_lower rest emotion_scores)"

text \<open>
  Strategy 4: a guess from the text length and a few trigger words, ending in the
  general default distribution.
\<close>

definition any_in :: "ustr list \<Rightarrow> ustr \<Rightarrow> bool" where
  "any_in words text = list_ex (\<lambda>word. str_in word text) words"

definition guessed_scores :: "ustr \<Rightarrow> ustr \<Rightarrow> ustr \<Rightarrow> (ustr, nat) dict" where
  "guessed_scores overview tagline title_text =
     (let text_length = length overview + length tagline
      in if text_length < 50
         then [(asc ''hope'', 2), (asc ''inspiration'', 1), (asc ''joy'', 1)]
         else if any_in [asc ''war'', asc ''battle'', asc ''fight'', [25112, 20105], [25112, 26007]]
                   title_text
         then [(asc ''fear'', 3), (asc ''tension'', 2), (asc ''anger'', 1)]
         else if any_in [asc ''love'', asc ''romance'', [29233], [29233, 24773]] title_text
         then [(asc ''love'', 4), (asc ''joy'', 2), (asc ''hope'', 1)]
         else if any_in [asc ''death'', asc ''die'', asc ''dead'', [27515, 20129], [27515, 21435]]
                   title_text
         then [(asc ''sadness'', 4), (asc ''hope'', 1), (asc ''inspiration'', 1)]
         else [(asc ''hope'', 2), (asc ''inspiration'', 2), (asc ''joy'', 1), (asc ''sadness'', 1)])"

text \<open>
  \<open>genres\<close> is optional (\<open>None\<close> by default); \<open>if genres and not emotion_scores\<close>
  takes strategy 2 only for a non-empty genre list and empty scores. Strategy 3 is not
  guarded. \<open>keywords\<close> is a parameter that the function does not read.
\<close>

definition fallback_emotion_analysis ::
  "platform \<Rightarrow> ustr \<Rightarrow> ustr \<Rightarrow> ustr list \<Rightarrow> ustr list option \<Rightarrow> (ustr, nat) dict" where
  "fallback_emotion_analysis P overview tagline keywords genres =
     (let title_text = str_lower P (tagline @ asc '' '' @ overview);
          emotion_scores = extended_scores title_text extended_emotion_lexicon [];
          emotion_scores =
            (case genres of
               None \<Rightarrow> emotion_scores
             | Some gs \<Rightarrow> if gs \<noteq> [] \<and> emotion_scores = [] then genre_scores gs emotion_scores
                          else emotion_scores);
          title_lower = (if overview \<noteq> [] then str_lower P overview else []);
          emotion_scores = known_movie_scores title_lower known_movie_emotions emotion_scores
      in if emotion_scores = [] then guessed_scores overview tagline title_text
         else emotion_scores)"

text \<open>
  \<open>analyze_movie_emotion\<close>: primary pass, fallback when it found nothing,
  normalisation to three decimals, the dominant emotions (of the three best, those above
  0.1) and the mood tags.
\<close>

record emotion_analysis =
  emotion_profile :: "(ustr, real) dict"
  dominant_emotions :: "ustr list"
  mood_tags :: "ustr list"
  emotional_complexity :: nat

definition normalize_scores :: "(ustr, nat) dict \<Rightarrow> nat \<Rightarrow> (ustr, real) dict" where
  "normalize_scores emotion_scores total_score =
     (if total_score > 0
      then map (\<lambda>(emotion, score). (emotion, round3 (real score / real total_score))) emotion_scores
      else [])"

definition scored :: "platform \<Rightarrow> ustr \<Rightarrow> ustr \<Rightarrow> ustr list \<Rightarrow> ustr list option \<Rightarrow> (ustr, nat) dict \<times> nat" where
  "scored P overview tagline keywords genres =
     (let combined_text = str_lower P (tagline @ asc '' '' @ overview @ asc '' '' @ join (asc '' '') keywords);
          (emotion_scores, total_score) = primary_scores P combined_text emotion_lexicon ([], 0)
      in if emotion_scores = []
         then (let fallback = fallback_emotion_analysis P overview tagline keywords genres
               in (fallback, sum_list (dict_values fallback)))
         else (emotion_scores, total_score))"

definition analyze_movie_emotion ::
  "platform \<Rightarrow> ustr \<Rightarrow> ustr \<Rightarrow> ustr list \<Rightarrow> ustr list option \<Rightarrow> emotion_analysis" where
  "analyze_movie_emotion P overview tagline keywords genres =
     (let (emotion_scores, total_score) = scored P overview tagline keywords genres;
          normalized_scores = normalize_scores emotion_scores total_score;
          sorted_emotions = sorted_desc snd normalized_scores;
          dominant = (if normalized_scores \<noteq> []
                      then map fst (filter (\<lambda>item. snd item > 1 / 10) (take 3 sorted_emotions))
                      else [])
      in \<lparr>emotion_profile = normalized_scores,
          dominant_emotions = dominant,
          mood_tags = generate_mood_tags P normalized_scores,
          emotional_complexity = length normalized_scores\<rparr>)"

subsection \<open>Batch builder and exporter\<close>

text \<open>
  A merged record (\<open>movie_data\<close> in \<open>crawl_top_rated_movies\<close>) joins the catalogue
  fields with the four results of the analysis. Only the identifier and the title are
  kept of the catalogue fields; the others (dates, votes, cast, reviews) are carried along
  unchanged and play no part below. An identifier is an integer in the crawler's output and
  a string in the recommender's sample data; the recommender substitutes the empty string
  for a missing one.
\<close>

datatype ident = IntId int | StrId ustr

record movie = emotion_analysis +
  movie_id :: ident
  title :: ustr

text \<open>The crawler always passes a genre list (\<open>details.get('genres', [])\<close>).\<close>

definition build_movie_data ::
  "platform \<Rightarrow> int \<Rightarrow> ustr \<Rightarrow> ustr \<Rightarrow> ustr \<Rightarrow> ustr list \<Rightarrow> ustr list \<Rightarrow> movie" where
  "build_movie_data P tmdb_id ttl overview tagline keywords genres =
     (let analysis = analyze_movie_emotion P overview tagline keywords (Some genres)
      in \<lparr>emotion_profile = emotion_profile analysis,
          dominant_emotions = dominant_emotions analysis,
          mood_tags = mood_tags analysis,
          emotional_complexity = emotional_complexity analysis,
          movie_id = IntId tmdb_id,
          title = ttl\<rparr>)"

text \<open>
  \<open>save_data\<close> writes the list of merged records with \<open>json.dump\<close> and the
  recommender reads it back with \<open>json.load\<close>. Serialisation is outside the model: a
  dictionary of numbers comes back as it was written, keys in the same order, so the JSON
  corpus is the list of records itself.

  \<open>save_emotion_vectors\<close> collects the emotion names that occur in any profile into a
  set and sorts them (strings compare lexicographically by code point); these are the
  emotion columns of the CSV file, after the four columns \<open>movie_id\<close>, \<open>title\<close>,
  \<open>year\<close> and \<open>rank\<close>. Each row gives the profile's value per column, 0.0 if absent.
\<close>

definition emotion_columns :: "movie list \<Rightarrow> ustr list" where
  "emotion_columns movie_data =
     sort (remdups (concat (map (\<lambda>m. map fst (emotion_profile m)) movie_data)))"

definition save_emotion_vectors :: "movie list \<Rightarrow> ustr list \<times> (ident \<times> ustr \<times> real list) list" where
  "save_emotion_vectors movie_data =
     (let all_emotions = emotion_columns movie_data
      in (all_emotions,
          map (\<lambda>m. (movie_id m, title m,
                     map (\<lambda>emotion. dict_get (emotion_profile m) emotion 0) all_emotions))
              movie_data))"

section \<open>The recommender\<close>

subsection \<open>Tables\<close>

definition fixed_emotion_labels :: "ustr list" where
  "fixed_emotion_labels =
     [asc ''joy'', asc ''sadness'', asc ''anger'', asc ''fear'', asc ''love'', asc ''hope'',
      asc ''loneliness'', asc ''inspiration'', asc ''tension'', asc ''peace'']"

text \<open>\<open>self.emotion_mapping\<close>: the English labels and their Chinese aliases.\<close>

definition emotion_mapping :: "(ustr \<times> ustr) list" where
  "emotion_mapping =
   [(asc ''joy'', asc ''joy''), (asc ''sadness'', asc ''sadness''),
    (asc ''anger'', asc ''anger''), (asc ''fear'', asc ''fear''), (asc ''love'', asc ''love''),
    (asc ''hope'', asc ''hope''), (asc ''loneliness'', asc ''loneliness''),
    (asc ''inspiration'', asc ''inspiration''), (asc ''tension'', asc ''tension''),
    (asc ''peace'', asc ''peace''), ([24555, 20048], asc ''joy''), ([24320, 24515], asc ''joy''),
    ([39640, 20852], asc ''joy''), ([24841, 24555], asc ''joy''), ([27426, 20048], asc ''joy''),
    ([24754, 20260], asc ''sadness''), ([38590, 36807], asc ''sadness''),
    ([20260, 24515], asc ''sadness''), ([24551, 37057], asc ''sadness''),
    ([24868, 24594], asc ''anger''), ([29983, 27668], asc ''anger''),
    ([24594, 28779], asc ''anger''), ([24656, 24807], asc ''fear''),
    ([23475, 24597], asc ''fear''), ([24656, 24598], asc ''fear''),
    ([24778, 21523], asc ''fear''), ([29233], asc ''love''), ([29233, 24773], asc ''love''),
    ([28010, 28459], asc ''love''), ([29980, 34588], asc ''love''),
    ([24076, 26395], asc ''hope''), ([26399, 26395], asc ''hope''),
    ([26399, 24453], asc ''hope''), ([26790, 24819], asc ''hope''),
    ([23396, 29420], asc ''loneliness''), ([23396, 21333], asc ''loneliness''),
    ([23490, 23518], asc ''loneliness''), ([21169, 24535], asc ''inspiration''),
    ([40723, 33310], asc ''inspiration''), ([28608, 21169], asc ''inspiration''),
    ([32039, 24352], asc ''tension''), ([21050, 28608], asc ''tension''),
    ([24748, 30097], asc ''tension''), ([24778, 24730], asc ''tension''),
    ([24179, 38745], asc ''peace''), ([23433, 23425], asc ''peace''),
    ([23425, 38745], asc ''peace''), ([31077, 21644], asc ''peace'')]"

text \<open>The keyword table of \<open>extract_emotions_from_query\<close>.\<close>

definition emotion_keywords :: "(ustr \<times> ustr list) list" where
  "emotion_keywords =
  [  (asc ''joy'',
     [[24555, 20048], [24320, 24515], [39640, 20852], [24841, 24555], [27426, 20048],
      [21916, 24742], [25630, 31505], [24189, 40664], [21916, 21095]]),
   (asc ''sadness'',
     [[24754, 20260], [38590, 36807], [20260, 24515], [24551, 37057], [21696, 20260],
      [24754, 30171], [24754, 21095], [20260, 24863]]),
   (asc ''anger'',
     [[24868, 24594], [29983, 27668], [27668, 24868], [24594, 28779], [24868, 24936],
      [24700, 24594], [26292, 21147]]),
   (asc ''fear'',
     [[24656, 24807], [23475, 24597], [24656, 24598], [24778, 21523], [24778, 24730],
      [24656, 24908], [21487, 24597]]),
   (asc ''love'',
     [[29233], [29233, 24773], [24651, 29233], [28010, 28459], [29980, 34588], [28201, 39336],
      [24863, 20154], [28201, 26262]]),
   (asc ''hope'',
     [[24076, 26395], [26399, 26395], [30460, 26395], [26399, 24453], [24999, 25004],
      [21521, 24448]]),
   (asc ''loneliness'',
     [[23396, 29420], [23396, 21333], [23490, 23518], [23396, 31435], [29420, 22788],
      [30095, 31163]]),
   (asc ''inspiration'',
     [[21169, 24535], [40723, 33310], [28608, 21169], [25391, 22859], [22859, 21457],
      [21521, 19978]]),
   (asc ''tension'',
     [[32039, 24352], [21050, 28608], [24748, 30097], [24778, 38505],
      [24778, 24515, 21160, 39748], [25187, 20154, 24515, 24358]]),
   (asc ''peace'',
     [[24179, 38745], [23433, 23425], [23425, 38745], [31077, 21644], [23433, 36920],
      [24684, 38745]])]"

subsection \<open>Loading and indexing\<close>

text \<open>
  \<open>load_movies_from_json\<close>, on a file that parsed. Each profile is made dense over the
  ten fixed labels (anything under another name is dropped) and, when its values have a
  positive sum, every value is divided by that sum and rounded to three decimals. A record
  without a profile is read as one with the empty profile.
\<close>

definition zero_fill :: "(ustr, real) dict \<Rightarrow> (ustr, real) dict" where
  "zero_fill profile = map (\<lambda>emotion. (emotion, dict_get profile emotion 0)) fixed_emotion_labels"

definition fix_emotion_profile :: "(ustr, real) dict \<Rightarrow> (ustr, real) dict" where
  "fix_emotion_profile profile =
     (let fixed_emotion_profile = zero_fill profile;
          total = sum_list (dict_values fixed_emotion_profile)
      in if total > 0
         then map (\<lambda>(emotion, v). (emotion, round3 (v / total))) fixed_emotion_profile
         else fixed_emotion_profile)"

definition load_movies_from_json :: "movie list \<Rightarrow> movie list" where
  "load_movies_from_json data =
     map (\<lambda>m. m\<lparr>emotion_profile := fix_emotion_profile (emotion_profile m)\<rparr>) data"

text \<open>
  What the recommender gets from its libraries. The embedding model is opaque:
  \<open>embed_query\<close> is \<open>model.encode\<close> on a query, \<open>embed_movie\<close> is \<open>model.encode\<close> on
  the text that \<open>prepare_movie_texts\<close> builds for a record, and \<open>cos_sim\<close> is the cosine
  similarity of two embeddings. \<open>topk\<close> is \<open>torch.topk\<close> (the indices of the \<open>k\<close>
  largest values, largest first) and \<open>argsort\<close> is \<open>numpy.argsort\<close> with its default
  sorting kind, which is not stable: neither fixes the order of equal values.
\<close>

record 'e libraries =
  embed_query :: "ustr \<Rightarrow> 'e"
  embed_movie :: "movie \<Rightarrow> 'e"
  cos_sim :: "'e \<Rightarrow> 'e \<Rightarrow> real"
  topk :: "real list \<Rightarrow> nat \<Rightarrow> nat list"
  argsort :: "real list \<Rightarrow> nat list"

definition valid_argsort :: "(real list \<Rightarrow> nat list) \<Rightarrow> bool" where
  "valid_argsort f =
     (\<forall>xs. distinct (f xs) \<and> set (f xs) = {..<length xs} \<and> sorted (map (\<lambda>i. xs ! i) (f xs)))"

definition valid_topk :: "(real list \<Rightarrow> nat \<Rightarrow> nat list) \<Rightarrow> bool" where
  "valid_topk f =
     (\<forall>xs k. k \<le> length xs \<longrightarrow>
        length (f xs k) = k \<and> distinct (f xs k) \<and> set (f xs k) \<subseteq> {..<length xs}
        \<and> sorted (rev (map (\<lambda>i. xs ! i) (f xs k)))
        \<and> (\<forall>i < length xs. i \<notin> set (f xs k) \<longrightarrow> (\<forall>j \<in> set (f xs k). xs ! i \<le> xs ! j)))"

text \<open>
  The state of an \<open>EmotionMovieRecommender\<close>. Before \<open>index_movies\<close> both matrices are
  \<open>None\<close> and \<open>emotion_labels\<close> is empty.
\<close>

record 'e recommender =
  movies :: "movie list"
  semantic_embeddings :: "'e list option"
  emotion_vectors :: "real list list option"
  emotion_labels :: "ustr list"

definition init_recommender :: "'e recommender" where
  "init_recommender =
     \<lparr>movies = [], semantic_embeddings = None, emotion_vectors = None, emotion_labels = []\<rparr>"

text \<open>
  \<open>extract_emotion_vectors\<close>: one row per record, one column per fixed label, the
  profile's value clamped to the interval from 0 to 1, and 0 where the profile has none.
\<close>

definition emotion_row :: "ustr list \<Rightarrow> movie \<Rightarrow> real list" where
  "emotion_row labels m =
     map (\<lambda>emotion. max 0 (min 1 (dict_get (emotion_profile m) emotion 0))) labels"

definition extract_emotion_vectors :: "'e recommender \<Rightarrow> movie list \<Rightarrow> 'e recommender" where
  "extract_emotion_vectors r ms =
     r\<lparr>emotion_labels := fixed_emotion_labels,
       emotion_vectors := Some (map (emotion_row fixed_emotion_labels) ms)\<rparr>"

definition index_movies :: "'e libraries \<Rightarrow> 'e recommender \<Rightarrow> movie list \<Rightarrow> 'e recommender" where
  "index_movies L r ms =
     extract_emotion_vectors
       (r\<lparr>movies := ms, semantic_embeddings := Some (map (embed_movie L) ms)\<rparr>) ms"

subsection \<open>Retrieval\<close>

text \<open>
  A search returns pairs of a record copy, extended by the two component scores, and the
  ranking score. What a search prints as a warning is part of its outcome. A search on a
  recommender that was never indexed raises \<open>ValueError\<close>.
\<close>

datatype error = ValueError | RuntimeError | IndexError

record hit =
  hit_movie :: movie
  semantic_score :: real
  emotion_score :: real

record outcome =
  warnings :: "ustr list"
  results :: "(hit \<times> real) list"

text \<open>
  Python slices with an integer bound: \<open>xs[:k]\<close> and \<open>xs[-k:]\<close>. A negative bound
  counts from the other end, and \<open>xs[-0:]\<close> is \<open>xs[0:]\<close>, the whole list.
\<close>

definition slice_to :: "int \<Rightarrow> 'a list \<Rightarrow> 'a list" where
  "slice_to k xs = (if k \<ge> 0 then take (nat k) xs else take (length xs - nat (- k)) xs)"

definition slice_last :: "int \<Rightarrow> 'a list \<Rightarrow> 'a list" where
  "slice_last k xs = (if k > 0 then drop (length xs - nat k) xs else drop (nat (- k)) xs)"

text \<open>
  \<open>semantic_search\<close>. \<open>torch.topk\<close> rejects a negative \<open>k\<close> with a
  \<open>RuntimeError\<close>; an index outside the record list would raise \<open>IndexError\<close>.
\<close>

definition semantic_search ::
  "'e libraries \<Rightarrow> 'e recommender \<Rightarrow> ustr \<Rightarrow> int \<Rightarrow> error + outcome" where
  "semantic_search L r query top_k =
     (case semantic_embeddings r of
        None \<Rightarrow> Inl ValueError
      | Some embeddings \<Rightarrow>
          (let semantic_similarities = map (cos_sim L (embed_query L query)) embeddings;
               k = min top_k (int (length (movies r)))
           in if k < 0 \<or> nat k > length semantic_similarities then Inl RuntimeError
              else (let indices = topk L semantic_similarities (nat k)
                    in if list_ex (\<lambda>idx. idx \<ge> length (movies r) \<or> idx \<ge> length semantic_similarities) indices
                       then Inl IndexError
                       else Inr \<lparr>warnings = [],
                                 results = map (\<lambda>idx. (\<lparr>hit_movie = movies r ! idx,
                                                         semantic_score = semantic_similarities ! idx,
                                                         emotion_score = 0\<rparr>,
                                                       semantic_similarities ! idx)) indices\<rparr>)))"

text \<open>
  \<open>emotion_search\<close>. First the labels of the query are translated and filtered: a label
  that the alias table does not lead into \<open>emotion_labels\<close> is reported and dropped, the
  others are stored with their intensity clamped to the interval from 0 to 1 (a later
  label overwrites an earlier one with the same translation).
\<close>

fun convert_emotions ::
  "ustr list \<Rightarrow> (ustr \<times> real) list \<Rightarrow> (ustr, real) dict \<times> ustr list \<Rightarrow> (ustr, real) dict \<times> ustr list" where
  "convert_emotions labels [] state = state"
| "convert_emotions labels ((emotion, intensity) # rest) (converted_emotions, warned) =
     (let mapped_emotion = dict_get emotion_mapping emotion emotion
      in if mapped_emotion \<in> set labels
         then convert_emotions labels rest
                (dict_set converted_emotions mapped_emotion (max 0 (min 1 intensity)), warned)
         else convert_emotions labels rest (converted_emotions, warned @ [emotion]))"

text \<open>\<open>labels.index(x)\<close> for an \<open>x\<close> that is in the list.\<close>

fun index_of :: "'a list \<Rightarrow> 'a \<Rightarrow> nat" where
  "index_of [] x = 0"
| "index_of (y # ys) x = (if y = x then 0 else Suc (index_of ys x))"

fun fill_target :: "ustr list \<Rightarrow> (ustr \<times> real) list \<Rightarrow> real list \<Rightarrow> real list" where
  "fill_target labels [] target_vector = target_vector"
| "fill_target labels ((emotion, intensity) # rest) target_vector =
     fill_target labels rest
       (if emotion \<in> set labels then target_vector[index_of labels emotion := intensity]
        else target_vector)"

definition l2_norm :: "real list \<Rightarrow> real" where
  "l2_norm v = sqrt (sum_list (map (\<lambda>x. x * x) v))"

definition target_vector_of :: "ustr list \<Rightarrow> (ustr, real) dict \<Rightarrow> real list" where
  "target_vector_of labels converted_emotions =
     (let target_vector = fill_target labels converted_emotions (replicate (length labels) 0);
          target_norm = l2_norm target_vector
      in if target_norm > 0 then map (\<lambda>x. x / target_norm) target_vector else target_vector)"

text \<open>
  \<open>sklearn.metrics.pairwise.cosine_similarity\<close> scales every row to unit length, leaving
  a row of zeros as it is, and takes inner products. It refuses a matrix without rows
  with a \<open>ValueError\<close>.
\<close>

definition unit_row :: "real list \<Rightarrow> real list" where
  "unit_row v = (let n = l2_norm v in if n = 0 then v else map (\<lambda>x. x / n) v)"

definition dot :: "real list \<Rightarrow> real list \<Rightarrow> real" where
  "dot u v = sum_list (map (\<lambda>(x, y). x * y) (zip u v))"

definition cosine_similarity :: "real list \<Rightarrow> real list \<Rightarrow> real" where
  "cosine_similarity u v = dot (unit_row u) (unit_row v)"

definition emotion_search ::
  "'e libraries \<Rightarrow> 'e recommender \<Rightarrow> (ustr \<times> real) list \<Rightarrow> int \<Rightarrow> error + outcome" where
  "emotion_search L r target_emotions top_k =
     (case emotion_vectors r of
        None \<Rightarrow> Inl ValueError
      | Some vectors \<Rightarrow>
          (let (converted_emotions, warned) =
                 convert_emotions (emotion_labels r) target_emotions ([], []);
               target_vector = target_vector_of (emotion_labels r) converted_emotions
           in if list_all (\<lambda>x. x = 0) target_vector then Inr \<lparr>warnings = warned, results = []\<rparr>
              else if vectors = [] then Inl ValueError
              else (let emotion_similarities = map (cosine_similarity target_vector) vectors;
                        k = min top_k (int (length (movies r)));
                        top_indices = rev (slice_last k (argsort L emotion_similarities))
                    in if list_ex (\<lambda>idx. idx \<ge> length (movies r) \<or> idx \<ge> length emotion_similarities) top_indices
                       then Inl IndexError
                       else Inr \<lparr>warnings = warned,
                                 results = map (\<lambda>idx. (\<lparr>hit_movie = movies r ! idx,
                                                         semantic_score = 0,
                                                         emotion_score = emotion_similarities ! idx\<rparr>,
                                                       emotion_similarities ! idx)) top_indices\<rparr>)))"

text \<open>
  The intensities that \<open>extract_emotions_from_query\<close> returns are floating-point
  numbers: \<open>count / total_hits\<close> is the double nearest to the exact quotient, and a
  literal such as \<open>0.8\<close> is the double nearest to eight tenths. \<open>float_div p q\<close> is that
  double, as a real number, for \<open>0 \<le> p \<le> q\<close> and \<open>0 < q\<close>. If \<open>k\<close> doublings take \<open>p\<close>
  up to \<open>q\<close>, the quotient is at least \<open>1 / 2 ^ k\<close> and less than \<open>2 / 2 ^ k\<close>; the doubles
  of that range are the multiples of \<open>1 / 2 ^ (52 + k)\<close>, and IEEE division rounds to the
  nearest of them, a tie going to the even multiple.
\<close>

function doublings :: "nat \<Rightarrow> nat \<Rightarrow> nat" where
  "doublings p q = (if p = 0 \<or> q \<le> p then 0 else Suc (doublings (2 * p) q))"
  by pat_completeness auto
termination
  by (relation "measure (\<lambda>(p, q). q - p)") auto

declare doublings.simps [simp del]

definition float_div :: "nat \<Rightarrow> nat \<Rightarrow> real" where
  "float_div p q =
     (let k = doublings p q
      in real_of_int (round_half_even (real p * 2 ^ (52 + k) / real q)) / 2 ^ (52 + k))"

text \<open>
  \<open>extract_emotions_from_query\<close>: a keyword counts once if it occurs in the query or
  in the lower-cased query; the counts are divided by their total. Without any hit the
  query is tried against five trigger lists, and a default distribution closes the chain.
\<close>

definition keyword_hits :: "platform \<Rightarrow> ustr \<Rightarrow> ustr list \<Rightarrow> nat" where
  "keyword_hits P query keywords =
     length (filter (\<lambda>keyword. str_in keyword query \<or> str_in keyword (str_lower P query)) keywords)"

definition extract_emotions_from_query :: "platform \<Rightarrow> ustr \<Rightarrow> (ustr, real) dict" where
  "extract_emotions_from_query P query =
     (let emotion_counts =
            map (\<lambda>(emotion, keywords). (emotion, keyword_hits P query keywords)) emotion_keywords;
          total_hits = sum_list (dict_values emotion_counts)
      in if total_hits > 0
         then map (\<lambda>(emotion, count). (emotion, float_div count total_hits))
                (filter (\<lambda>(emotion, count). count > 0) emotion_counts)
         else if any_in [[23396, 29420], [23490, 23518], [26080, 32842]] query
         then [(asc ''loneliness'', float_div 8 10), (asc ''sadness'', float_div 2 10)]
         else if any_in [[24320, 24515], [24555, 20048], [39640, 20852]] query
         then [(asc ''joy'', float_div 8 10), (asc ''love'', float_div 2 10)]
         else if any_in [[24754, 20260], [38590, 36807], [20260, 24515]] query
         then [(asc ''sadness'', float_div 8 10), (asc ''loneliness'', float_div 2 10)]
         else if any_in [[32039, 24352], [21050, 28608], [24778, 24730]] query
         then [(asc ''tension'', float_div 8 10), (asc ''fear'', float_div 2 10)]
         else if any_in [[29233, 24773], [28010, 28459], [29980, 34588]] query
         then [(asc ''love'', float_div 8 10), (asc ''joy'', float_div 2 10)]
         else [(asc ''joy'', float_div 3 10), (asc ''hope'', float_div 3 10),
               (asc ''inspiration'', float_div 4 10)])"

text \<open>
  \<open>hybrid_search\<close>. Both searches are run over all records; their scores are filed
  under the record identifiers, combined per record of \<open>self.movies\<close>, sorted by
  descending combined score (stably) and cut to \<open>top_k\<close>. An identifier missing from a
  score table counts as 0. Each identifier is resolved to the first record that bears it.
\<close>

fun score_table :: "(hit \<times> real) list \<Rightarrow> (ident, real) dict \<Rightarrow> (ident, real) dict" where
  "score_table [] scores = scores"
| "score_table ((h, score) # rest) scores =
     score_table rest (dict_set scores (movie_id (hit_movie h)) score)"

fun combine_scores ::
  "movie list \<Rightarrow> (ident, real) dict \<Rightarrow> (ident, real) dict \<Rightarrow> real \<Rightarrow> real \<Rightarrow> (ident, real) dict
     \<Rightarrow> (ident, real) dict" where
  "combine_scores [] semantic_scores emotion_scores semantic_weight emotion_weight combined_scores =
     combined_scores"
| "combine_scores (m # rest) semantic_scores emotion_scores semantic_weight emotion_weight combined_scores =
     (let sem = dict_get semantic_scores (movie_id m) 0;
          emo = dict_get emotion_scores (movie_id m) 0
      in combine_scores rest semantic_scores emotion_scores semantic_weight emotion_weight
           (dict_set combined_scores (movie_id m) (sem * semantic_weight + emo * emotion_weight)))"

definition rank_combined ::
  "movie list \<Rightarrow> (ident, real) dict \<Rightarrow> (ident, real) dict \<Rightarrow> real \<Rightarrow> real \<Rightarrow> int
     \<Rightarrow> (hit \<times> real) list" where
  "rank_combined ms semantic_scores emotion_scores semantic_weight emotion_weight top_k =
     (let combined_scores =
            combine_scores ms semantic_scores emotion_scores semantic_weight emotion_weight [];
          sorted_movie_ids = slice_to top_k (sorted_desc snd combined_scores)
      in concat (map (\<lambda>(mid, combined_score).
                        case find (\<lambda>m. movie_id m = mid) ms of
                          None \<Rightarrow> []
                        | Some m \<Rightarrow>
                            [(\<lparr>hit_movie = m,
                               semantic_score = dict_get semantic_scores mid 0,
                               emotion_score = dict_get emotion_scores mid 0\<rparr>,
                              combined_score)])
                     sorted_movie_ids))"

definition hybrid_search ::
  "'e libraries \<Rightarrow> platform \<Rightarrow> 'e recommender \<Rightarrow> ustr \<Rightarrow> (ustr \<times> real) list option \<Rightarrow> real \<Rightarrow> real
     \<Rightarrow> int \<Rightarrow> error + outcome" where
  "hybrid_search L P r query target_emotions semantic_weight emotion_weight top_k =
     (let target = (case target_emotions of
                      None \<Rightarrow> extract_emotions_from_query P query
                    | Some given \<Rightarrow> given)
      in case semantic_search L r query (int (length (movies r))) of
           Inl e \<Rightarrow> Inl e
         | Inr semantic_results \<Rightarrow>
             (case emotion_search L r target (int (length (movies r))) of
                Inl e \<Rightarrow> Inl e
              | Inr emotion_results \<Rightarrow>
                  Inr \<lparr>warnings = warnings emotion_results,
                        results =
                          rank_combined (movies r)
                            (score_table (results semantic_results) [])
                            (score_table (results emotion_results) [])
                            semantic_weight emotion_weight top_k\<rparr>))"

text \<open>
  \<open>get_recommendation_by_mood\<close>: emotion search on the extracted emotions if there are
  any, semantic search on the description otherwise.
\<close>

definition get_recommendation_by_mood ::
  "'e libraries \<Rightarrow> platform \<Rightarrow> 'e recommender \<Rightarrow> ustr \<Rightarrow> int \<Rightarrow> error + outcome" where
  "get_recommendation_by_mood L P r mood_description top_k =
     (let target_emotions = extract_emotions_from_query P mood_description
      in if target_emotions \<noteq> [] then emotion_search L r target_emotions top_k
         else semantic_search L r mood_description top_k)"

section \<open>Library instances for evaluation\<close>

text \<open>
  Stand-ins for the libraries, used to evaluate the searches on concrete inputs: both
  sorts are stable sorts of the index list, and the embedding of a text is its length, so
  that the similarity of a query and a record is a known number.
\<close>

definition stable_argsort :: "real list \<Rightarrow> nat list" where
  "stable_argsort xs = sort_key (\<lambda>i. xs ! i) [0..<length xs]"

definition stable_topk :: "real list \<Rightarrow> nat \<Rightarrow> nat list" where
  "stable_topk xs k = take k (sort_key (\<lambda>i. - (xs ! i)) [0..<length xs])"

definition toy_libraries :: "real libraries" where
  "toy_libraries =
     \<lparr>embed_query = (\<lambda>query. real (length query)),
      embed_movie = (\<lambda>m. real (length (title m))),
      cos_sim = (\<lambda>x y. 1 / (1 + \<bar>x - y\<bar>)),
      topk = stable_topk,
      argsort = stable_argsort\<rparr>"

section \<open>The retrieval scores as the specification words them\<close>

text \<open>
  A query label maps into the category space if its translation by the alias table (the
  label itself where the table has no entry) is one of the ten categories. The semantic
  similarity of a record is the cosine similarity of the query embedding and the record's
  text embedding; its emotion similarity is the cosine similarity of the mapped,
  normalised target vector and the record's dense emotion vector; the hybrid score is the
  weighted sum of the two.
\<close>

definition maps_to_category :: "ustr \<Rightarrow> bool" where
  "maps_to_category label = (dict_get emotion_mapping label label \<in> set fixed_emotion_labels)"

definition translate_label :: "ustr \<Rightarrow> ustr" where
  "translate_label label = dict_get emotion_mapping label label"

text \<open>
  The entry of the target vector for a category is the intensity, clamped to the interval
  from 0 to 1, of the last query label that translates to the category, and 0 if there is
  none. The target vector lists the entries of the ten categories and is scaled to unit
  length unless it is all zeros.
\<close>

definition spec_target_entry :: "(ustr \<times> real) list \<Rightarrow> ustr \<Rightarrow> real" where
  "spec_target_entry target_emotions category =
     (case map_of (rev (map (\<lambda>(label, intensity). (translate_label label, max 0 (min 1 intensity)))
                          target_emotions)) category of
        None \<Rightarrow> 0
      | Some v \<Rightarrow> v)"

definition spec_target_vector :: "(ustr \<times> real) list \<Rightarrow> real list" where
  "spec_target_vector target_emotions =
     (let u = map (spec_target_entry target_emotions) fixed_emotion_labels;
          n = l2_norm u
      in if n > 0 then map (\<lambda>x. x / n) u else u)"

definition semantic_similarity :: "'e libraries \<Rightarrow> ustr \<Rightarrow> movie \<Rightarrow> real" where
  "semantic_similarity L query m = cos_sim L (embed_query L query) (embed_movie L m)"

definition emotion_similarity :: "(ustr \<times> real) list \<Rightarrow> movie \<Rightarrow> real" where
  "emotion_similarity target_emotions m =
     cosine_similarity
       (target_vector_of fixed_emotion_labels
          (fst (convert_emotions fixed_emotion_labels target_emotions ([], []))))
       (emotion_row fixed_emotion_labels m)"

definition spec_hybrid_score ::
  "'e libraries \<Rightarrow> ustr \<Rightarrow> (ustr \<times> real) list \<Rightarrow> real \<Rightarrow> real \<Rightarrow> movie \<Rightarrow> real" where
  "spec_hybrid_score L query target_emotions semantic_weight emotion_weight m =
     semantic_weight * semantic_similarity L query m
       + emotion_weight * emotion_similarity target_emotions m"

section \<open>The fallback chain as the specification words it\<close>

text \<open>
  The specification describes the fallback as a chain of strategies that stops at the
  first one with a non-zero score. The strategies, each run on its own from empty scores:
  the extended lexicon, the genre table, the known titles, and the guess (the length and
  trigger heuristics together with the default distribution, which always yields scores).
\<close>

fun first_nonempty :: "'a list list \<Rightarrow> 'a list" where
  "first_nonempty [] = []"
| "first_nonempty (x # xs) = (if x \<noteq> [] then x else first_nonempty xs)"

definition title_text_of :: "platform \<Rightarrow> ustr \<Rightarrow> ustr \<Rightarrow> ustr" where
  "title_text_of P overview tagline = str_lower P (tagline @ asc '' '' @ overview)"

definition title_lower_of :: "platform \<Rightarrow> ustr \<Rightarrow> ustr" where
  "title_lower_of P overview = (if overview \<noteq> [] then str_lower P overview else [])"

definition strategy_extended :: "platform \<Rightarrow> ustr \<Rightarrow> ustr \<Rightarrow> (ustr, nat) dict" where
  "strategy_extended P overview tagline =
     extended_scores (title_text_of P overview tagline) extended_emotion_lexicon []"

definition strategy_genre :: "ustr list option \<Rightarrow> (ustr, nat) dict" where
  "strategy_genre genres = (case genres of None \<Rightarrow> [] | Some gs \<Rightarrow> genre_scores gs [])"

definition strategy_known :: "platform \<Rightarrow> ustr \<Rightarrow> (ustr, nat) dict" where
  "strategy_known P overview =
     known_movie_scores (title_lower_of P overview) known_movie_emotions []"

definition strategy_guess :: "platform \<Rightarrow> ustr \<Rightarrow> ustr \<Rightarrow> (ustr, nat) dict" where
  "strategy_guess P overview tagline =
     guessed_scores overview tagline (title_text_of P overview tagline)"

definition spec_fallback_chain ::
  "platform \<Rightarrow> ustr \<Rightarrow> ustr \<Rightarrow> ustr list option \<Rightarrow> (ustr, nat) dict" where
  "spec_fallback_chain P overview tagline genres =
     first_nonempty [strategy_extended P overview tagline, strategy_genre genres,
                     strategy_known P overview, strategy_guess P overview tagline]"

section \<open>Properties of the tag generator\<close>

lemma valid_set_order_remdups: "valid_set_order remdups"
  by (simp add: valid_set_order_def)

lemma distinct_generic_tags: "distinct generic_tags \<and> length generic_tags = 3"
  by (simp add: generic_tags_def)

text \<open>
  Claim C8. For every emotion profile the tag generator returns at most six tags, no tag
  twice; for the empty profile it returns the fixed list of three generic tags.
\<close>

theorem tags_at_most_six_distinct:
  assumes "valid_set_order (set_order P)"
  shows "length (generate_mood_tags P profile) \<le> 6
         \<and> distinct (generate_mood_tags P profile)
         \<and> generate_mood_tags P [] = generic_tags \<and> length generic_tags = 3"
proof -
  have d: "\<And>xs. distinct (set_order P xs)"
    using assms by (simp add: valid_set_order_def)
  have "length (generate_mood_tags P profile) \<le> 6 \<and> distinct (generate_mood_tags P profile)"
  proof (cases profile)
    case Nil
    then show ?thesis
      using distinct_generic_tags by (simp add: generate_mood_tags_def)
  next
    case (Cons first others)
    then show ?thesis
      using d by (simp add: generate_mood_tags_def Let_def)
  qed
  moreover have "generate_mood_tags P [] = generic_tags"
    by (simp add: generate_mood_tags_def)
  ultimately show ?thesis
    using distinct_generic_tags by simp
qed

theorem tags_at_most_six_distinct_witness:
  "valid_set_order (set_order basic_platform)
   \<and> length (generate_mood_tags basic_platform [(asc ''joy'', 1)]) \<le> 6
   \<and> distinct (generate_mood_tags basic_platform [(asc ''joy'', 1)])
   \<and> generate_mood_tags basic_platform [] = generic_tags \<and> length generic_tags = 3"
proof -
  have h: "valid_set_order (set_order basic_platform)"
    by (simp add: basic_platform_def valid_set_order_remdups)
  show ?thesis
    using h tags_at_most_six_distinct [OF h, of "[(asc ''joy'', 1)]"] by simp
qed

section \<open>Rounding to three decimals\<close>

lemma round_half_even_error: "\<bar>real_of_int (round_half_even x) - x\<bar> \<le> 1 / 2"
proof -
  have "real_of_int \<lfloor>x\<rfloor> \<le> x" and "x < real_of_int \<lfloor>x\<rfloor> + 1"
    by linarith+
  then show ?thesis
    by (auto simp: round_half_even_def Let_def)
qed

lemma round3_error: "\<bar>round3 x - x\<bar> \<le> 1 / 2000"
proof -
  have "\<bar>real_of_int (round_half_even (x * 1000)) - x * 1000\<bar> \<le> 1 / 2"
    by (rule round_half_even_error)
  then show ?thesis
    by (simp add: round3_def field_simps abs_le_iff)
qed

lemma sum_round3_error:
  "\<bar>sum_list (map round3 xs) - sum_list xs\<bar> \<le> real (length xs) / 2000"
proof (induction xs)
  case Nil
  show ?case by simp
next
  case (Cons x xs)
  have a: "\<bar>round3 x - x\<bar> \<le> 1 / 2000"
    by (rule round3_error)
  have b: "sum_list (map round3 (x # xs)) - sum_list (x # xs)
             = (round3 x - x) + (sum_list (map round3 xs) - sum_list xs)"
    by simp
  have c: "real (length (x # xs)) / 2000 = 1 / 2000 + real (length xs) / 2000"
    by (simp add: add_divide_distrib)
  show ?case
    unfolding b c using a Cons.IH by linarith
qed

lemma round3_of_thousandth: "round3 (real_of_int n / 1000) = real_of_int n / 1000"
  by (simp add: round3_def round_half_even_def Let_def)

lemma round3_idem: "round3 (round3 x) = round3 x"
  using round3_of_thousandth [of "round_half_even (x * 1000)"] by (simp add: round3_def)

lemma values_normalize_scores:
  "t > 0 \<Longrightarrow> dict_values (normalize_scores d t) = map round3 (map (\<lambda>(e, s). real s / real t) d)"
  by (simp add: normalize_scores_def dict_values_def case_prod_beta comp_def)

lemma sum_scaled: "sum_list (map (\<lambda>(e, s). real s / c) d) = real (sum_list (map snd d)) / c"
  by (induction d) (auto simp: add_divide_distrib)

lemma normalize_scores_sum:
  assumes "t = sum_list (map snd d)" and "normalize_scores d t \<noteq> []"
  shows "\<bar>sum_list (dict_values (normalize_scores d t)) - 1\<bar> \<le> real (length (normalize_scores d t)) / 2000"
proof -
  have t: "t > 0"
    using assms(2) by (auto simp: normalize_scores_def split: if_splits)
  have l: "length (normalize_scores d t) = length (map (\<lambda>(e, s). real s / real t) d)"
    using t by (simp add: normalize_scores_def)
  have "sum_list (map (\<lambda>(e, s). real s / real t) d) = 1"
    unfolding sum_scaled assms(1) [symmetric] using t by simp
  then show ?thesis
    using sum_round3_error [of "map (\<lambda>(e, s). real s / real t) d"] t
    unfolding l values_normalize_scores [OF t] by simp
qed

section \<open>Invariants of the emotion scorer\<close>

text \<open>
  Every strategy keeps the keys of \<open>emotion_scores\<close> distinct and inside the ten
  categories, and the primary pass keeps \<open>total_score\<close> equal to the sum of the scores.
\<close>

lemma keys_dict_set: "fst ` set (dict_set d k v) = insert k (fst ` set d)"
proof (induction d)
  case Nil
  show ?case by simp
next
  case (Cons a d)
  obtain k' v' where a: "a = (k', v')"
    by (cases a)
  show ?case
  proof (cases "k' = k")
    case True
    then show ?thesis by (simp add: a)
  next
    case False
    then show ?thesis
      using Cons.IH by (simp add: a insert_commute)
  qed
qed

lemma distinct_dict_set: "distinct (map fst d) \<Longrightarrow> distinct (map fst (dict_set d k v))"
  by (induction d) (auto simp: keys_dict_set)

lemma sum_dict_set_fresh:
  "k \<notin> set (map fst d) \<Longrightarrow> sum_list (map snd (dict_set d k v)) = sum_list (map snd d) + (v::nat)"
  by (induction d) auto

lemma primary_scores_invariant:
  assumes "distinct (map fst lx)" and "set (map fst d) \<inter> set (map fst lx) = {}"
    and "distinct (map fst d)" and "t = sum_list (map snd d)"
  shows "snd (primary_scores P blob lx (d, t)) = sum_list (map snd (fst (primary_scores P blob lx (d, t))))
         \<and> distinct (map fst (fst (primary_scores P blob lx (d, t))))
         \<and> set (map fst (fst (primary_scores P blob lx (d, t)))) \<subseteq> set (map fst d) \<union> set (map fst lx)"
  using assms
proof (induction lx arbitrary: d t)
  case Nil
  then show ?case by simp
next
  case (Cons entry lx)
  obtain emotion ws where entry: "entry = (emotion, ws)"
    by (cases entry)
  define score where "score = category_score P blob ws"
  show ?case
  proof (cases "score > 0")
    case False
    have "set (map fst d) \<inter> set (map fst lx) = {}"
      using Cons.prems(2) by auto
    then have "snd (primary_scores P blob lx (d, t)) = sum_list (map snd (fst (primary_scores P blob lx (d, t))))
         \<and> distinct (map fst (fst (primary_scores P blob lx (d, t))))
         \<and> set (map fst (fst (primary_scores P blob lx (d, t)))) \<subseteq> set (map fst d) \<union> set (map fst lx)"
      using Cons.IH [of d t] Cons.prems by simp
    then show ?thesis
      using False by (auto simp: entry score_def)
  next
    case True
    let ?d = "dict_set d emotion score"
    have fresh: "emotion \<notin> set (map fst d)"
      using Cons.prems(2) by (auto simp: entry)
    have 1: "distinct (map fst lx)"
      using Cons.prems(1) by simp
    have 2: "set (map fst ?d) \<inter> set (map fst lx) = {}"
      using Cons.prems(1,2) by (auto simp: keys_dict_set entry)
    have 3: "distinct (map fst ?d)"
      using Cons.prems(3) by (rule distinct_dict_set)
    have 4: "t + score = sum_list (map snd ?d)"
      using fresh Cons.prems(4) by (simp add: sum_dict_set_fresh)
    have "snd (primary_scores P blob lx (?d, t + score)) = sum_list (map snd (fst (primary_scores P blob lx (?d, t + score))))
         \<and> distinct (map fst (fst (primary_scores P blob lx (?d, t + score))))
         \<and> set (map fst (fst (primary_scores P blob lx (?d, t + score)))) \<subseteq> set (map fst ?d) \<union> set (map fst lx)"
      using Cons.IH [OF 1 2 3 4] .
    then show ?thesis
      using True by (auto simp: entry score_def [symmetric] Let_def keys_dict_set)
  qed
qed

lemma extended_scores_keys:
  "distinct (map fst d) \<Longrightarrow>
     distinct (map fst (extended_scores tt lx d))
     \<and> set (map fst (extended_scores tt lx d)) \<subseteq> set (map fst d) \<union> set (map fst lx)"
proof (induction lx arbitrary: d)
  case Nil
  then show ?case by simp
next
  case (Cons entry lx)
  obtain emotion ws where entry: "entry = (emotion, ws)"
    by (cases entry)
  define d' where "d' = (if sum_list (map (extended_word_score tt) ws) > 0
                         then dict_set d emotion (sum_list (map (extended_word_score tt) ws)) else d)"
  have "distinct (map fst d')"
    using Cons.prems by (simp add: d'_def distinct_dict_set)
  from Cons.IH [OF this]
  have "distinct (map fst (extended_scores tt lx d'))
        \<and> set (map fst (extended_scores tt lx d')) \<subseteq> set (map fst d') \<union> set (map fst lx)" .
  moreover have "set (map fst d') \<subseteq> insert emotion (set (map fst d))"
    by (auto simp: d'_def keys_dict_set)
  moreover have "extended_scores tt (entry # lx) d = extended_scores tt lx d'"
    by (simp add: entry d'_def Let_def)
  ultimately show ?case
    unfolding entry by (simp only: list.map fst_conv set_simps) blast
qed

lemma genre_scores_keys:
  "distinct (map fst d) \<Longrightarrow>
     distinct (map fst (genre_scores gs d))
     \<and> set (map fst (genre_scores gs d)) \<subseteq> set (map fst d) \<union> set (map snd genre_emotion_map)"
proof (induction gs arbitrary: d)
  case Nil
  then show ?case by simp
next
  case (Cons g gs)
  show ?case
  proof (cases "map_of genre_emotion_map g")
    case None
    then show ?thesis
      using Cons by simp
  next
    case (Some emotion)
    then have mem: "emotion \<in> set (map snd genre_emotion_map)"
      by (force dest: map_of_SomeD)
    let ?d = "dict_set d emotion (dict_get d emotion 0 + 2)"
    have "distinct (map fst ?d)"
      using Cons.prems by (rule distinct_dict_set)
    from Cons.IH [OF this] Cons.IH [OF Cons.prems] mem show ?thesis
      by (auto simp: Some keys_dict_set)
  qed
qed

lemma add_scores_keys:
  "distinct (map fst d) \<Longrightarrow>
     distinct (map fst (add_scores emotions d))
     \<and> set (map fst (add_scores emotions d)) \<subseteq> set (map fst d) \<union> set (map fst emotions)"
proof (induction emotions arbitrary: d)
  case Nil
  then show ?case by simp
next
  case (Cons entry emotions)
  obtain emotion score where entry: "entry = (emotion, score)"
    by (cases entry)
  let ?d = "dict_set d emotion (dict_get d emotion 0 + score)"
  have "distinct (map fst ?d)"
    using Cons.prems by (rule distinct_dict_set)
  from Cons.IH [OF this] show ?case
    by (auto simp: entry keys_dict_set)
qed

lemma known_movie_scores_keys:
  "distinct (map fst d) \<Longrightarrow>
     distinct (map fst (known_movie_scores low tbl d))
     \<and> set (map fst (known_movie_scores low tbl d))
          \<subseteq> set (map fst d) \<union> set (concat (map (\<lambda>entry. map fst (snd entry)) tbl))"
proof (induction tbl)
  case Nil
  then show ?case by simp
next
  case (Cons entry tbl)
  obtain known_title emotions where entry: "entry = (known_title, emotions)"
    by (cases entry)
  show ?case
    using Cons add_scores_keys [OF Cons.prems, of emotions]
    by (auto simp: entry)
qed

lemma fixed_emotion_labels_distinct:
  "distinct fixed_emotion_labels \<and> length fixed_emotion_labels = 10"
  by (simp add: fixed_emotion_labels_def asc_def)

lemma emotion_lexicon_keys: "map fst emotion_lexicon = fixed_emotion_labels"
  by (simp add: emotion_lexicon_def fixed_emotion_labels_def)

lemma extended_emotion_lexicon_keys:
  "set (map fst extended_emotion_lexicon) \<subseteq> set fixed_emotion_labels"
  by (simp add: extended_emotion_lexicon_def fixed_emotion_labels_def)

lemma genre_emotion_map_values: "set (map snd genre_emotion_map) \<subseteq> set fixed_emotion_labels"
  by (simp add: genre_emotion_map_def fixed_emotion_labels_def)

lemma known_movie_emotions_keys:
  "set (concat (map (\<lambda>entry. map fst (snd entry)) known_movie_emotions)) \<subseteq> set fixed_emotion_labels"
  by (simp add: known_movie_emotions_def fixed_emotion_labels_def)

lemma guessed_scores_keys:
  "distinct (map fst (guessed_scores overview tagline title_text))
   \<and> set (map fst (guessed_scores overview tagline title_text)) \<subseteq> set fixed_emotion_labels"
  by (simp add: guessed_scores_def Let_def fixed_emotion_labels_def asc_def)

lemma fallback_emotion_analysis_keys:
  "distinct (map fst (fallback_emotion_analysis P overview tagline keywords genres))
   \<and> set (map fst (fallback_emotion_analysis P overview tagline keywords genres))
        \<subseteq> set fixed_emotion_labels"
proof -
  define title_text where "title_text = str_lower P (tagline @ asc '' '' @ overview)"
  define s1 where "s1 = extended_scores title_text extended_emotion_lexicon []"
  define s2 where "s2 = (case genres of None \<Rightarrow> s1
                          | Some gs \<Rightarrow> if gs \<noteq> [] \<and> s1 = [] then genre_scores gs s1 else s1)"
  define low where "low = (if overview \<noteq> [] then str_lower P overview else [])"
  define s3 where "s3 = known_movie_scores low known_movie_emotions s2"
  have f: "fallback_emotion_analysis P overview tagline keywords genres
             = (if s3 = [] then guessed_scores overview tagline title_text else s3)"
    unfolding fallback_emotion_analysis_def Let_def s3_def s2_def s1_def low_def title_text_def
    by (rule refl)
  have k1: "distinct (map fst s1) \<and> set (map fst s1) \<subseteq> set fixed_emotion_labels"
    using extended_scores_keys [of "[]" title_text extended_emotion_lexicon]
      extended_emotion_lexicon_keys
    unfolding s1_def by (simp del: set_map) blast
  have k2: "distinct (map fst s2) \<and> set (map fst s2) \<subseteq> set fixed_emotion_labels"
  proof (cases genres)
    case None
    then show ?thesis using k1 by (simp add: s2_def)
  next
    case (Some gs)
    show ?thesis
      using k1 genre_scores_keys [of s1 gs] genre_emotion_map_values
      unfolding s2_def Some by (simp del: set_map) blast
  qed
  have k3: "distinct (map fst s3) \<and> set (map fst s3) \<subseteq> set fixed_emotion_labels"
    using k2 known_movie_scores_keys [of s2 low known_movie_emotions] known_movie_emotions_keys
    unfolding s3_def by blast
  show ?thesis
    unfolding f using k3 guessed_scores_keys [of overview tagline title_text]
    by (simp del: set_map)
qed

lemma scored_invariant:
  assumes "scored P overview tagline keywords genres = (d, t)"
  shows "t = sum_list (map snd d) \<and> distinct (map fst d)
         \<and> set (map fst d) \<subseteq> set fixed_emotion_labels"
proof -
  define blob where "blob = str_lower P (tagline @ asc '' '' @ overview @ asc '' '' @ join (asc '' '') keywords)"
  define pr where "pr = primary_scores P blob emotion_lexicon ([], 0)"
  have inv: "snd pr = sum_list (map snd (fst pr)) \<and> distinct (map fst (fst pr))
             \<and> set (map fst (fst pr)) \<subseteq> set fixed_emotion_labels"
    using primary_scores_invariant [of emotion_lexicon "[]" 0 P blob] fixed_emotion_labels_distinct
    unfolding pr_def emotion_lexicon_keys by simp
  have s: "scored P overview tagline keywords genres
             = (if fst pr = []
                then (fallback_emotion_analysis P overview tagline keywords genres,
                      sum_list (dict_values (fallback_emotion_analysis P overview tagline keywords genres)))
                else pr)"
    by (simp add: scored_def Let_def pr_def blob_def case_prod_beta)
  show ?thesis
  proof (cases "fst pr = []")
    case True
    then show ?thesis
      using assms fallback_emotion_analysis_keys [of P overview tagline "keywords" genres]
      unfolding s by (auto simp: dict_values_def simp del: set_map)
  next
    case False
    then have "pr = (d, t)"
      using assms unfolding s by simp
    then show ?thesis
      using inv by simp
  qed
qed

lemma length_le_labels:
  assumes "distinct ks" and "set ks \<subseteq> set fixed_emotion_labels"
  shows "length ks \<le> 10"
proof -
  have "length ks = card (set ks)"
    using assms(1) by (simp add: distinct_card)
  also have "\<dots> \<le> card (set fixed_emotion_labels)"
    using assms(2) by (simp add: card_mono)
  also have "\<dots> = 10"
    using fixed_emotion_labels_distinct by (simp add: distinct_card)
  finally show ?thesis .
qed

lemma keys_normalize_scores:
  "t > 0 \<Longrightarrow> map fst (normalize_scores d t) = map fst d"
  by (simp add: normalize_scores_def case_prod_beta comp_def)

lemma analyze_profile:
  "emotion_profile (analyze_movie_emotion P overview tagline keywords genres)
     = normalize_scores (fst (scored P overview tagline keywords genres))
         (snd (scored P overview tagline keywords genres))"
  by (simp add: analyze_movie_emotion_def Let_def case_prod_beta)

lemma scorer_profile_sum:
  assumes "emotion_profile (analyze_movie_emotion P overview tagline keywords genres) \<noteq> []"
  shows "\<bar>sum_list (dict_values (emotion_profile (analyze_movie_emotion P overview tagline keywords genres))) - 1\<bar>
           \<le> real (length (emotion_profile (analyze_movie_emotion P overview tagline keywords genres))) / 2000
         \<and> length (emotion_profile (analyze_movie_emotion P overview tagline keywords genres)) \<le> 10"
proof -
  obtain d t where s: "scored P overview tagline keywords genres = (d, t)"
    by (cases "scored P overview tagline keywords genres")
  have inv: "t = sum_list (map snd d)" "distinct (map fst d)"
    "set (map fst d) \<subseteq> set fixed_emotion_labels"
    using scored_invariant [OF s] by simp_all
  have p: "emotion_profile (analyze_movie_emotion P overview tagline keywords genres) = normalize_scores d t"
    by (simp add: analyze_profile s)
  have ne: "normalize_scores d t \<noteq> []"
    using assms by (simp add: p)
  then have t: "t > 0"
    by (auto simp: normalize_scores_def split: if_splits)
  have "length (normalize_scores d t) = length (map fst (normalize_scores d t))"
    by simp
  also have "\<dots> = length (map fst d)"
    by (simp only: keys_normalize_scores [OF t])
  also have "\<dots> \<le> 10"
    using inv(2,3) by (rule length_le_labels)
  finally have "length (normalize_scores d t) \<le> 10" .
  then show ?thesis
    using normalize_scores_sum [OF inv(1) ne] by (simp add: p)
qed

lemma zero_fill_length: "length (zero_fill profile) = 10"
  using fixed_emotion_labels_distinct by (simp add: zero_fill_def)

lemma sum_scaled_real: "sum_list (map (\<lambda>(e, v). v / c) d) = sum_list (map snd d) / (c::real)"
  by (induction d) (auto simp: add_divide_distrib)

lemma loader_profile_sum:
  assumes "sum_list (dict_values (zero_fill profile)) > 0"
  shows "\<bar>sum_list (dict_values (fix_emotion_profile profile)) - 1\<bar>
           \<le> real (length (fix_emotion_profile profile)) / 2000
         \<and> length (fix_emotion_profile profile) = 10"
proof -
  define z where "z = zero_fill profile"
  define total where "total = sum_list (map snd z)"
  have t: "total > 0"
    using assms by (simp add: total_def z_def dict_values_def)
  have f: "fix_emotion_profile profile = map (\<lambda>(emotion, v). (emotion, round3 (v / total))) z"
    using t by (simp add: fix_emotion_profile_def Let_def z_def total_def dict_values_def)
  have v: "dict_values (fix_emotion_profile profile) = map round3 (map (\<lambda>(e, v). v / total) z)"
    by (simp add: f dict_values_def case_prod_beta comp_def)
  have l: "length (fix_emotion_profile profile) = length (map (\<lambda>(e, v). v / total) z)"
    by (simp add: f)
  have one: "sum_list (map (\<lambda>(e, v). v / total) z) = 1"
    unfolding sum_scaled_real total_def [symmetric] using t by simp
  have "length (fix_emotion_profile profile) = 10"
    by (simp add: f z_def zero_fill_length)
  then show ?thesis
    using sum_round3_error [of "map (\<lambda>(e, v). v / total) z"]
    unfolding l v one by simp
qed

section \<open>Normalised profiles\<close>

text \<open>Evaluation of the scorer on the overview "happy laughter".\<close>

lemmas eval_defs = str_count_def asc_def startswith_def keyword_score_def re_findall_word_def
  basic_platform_def basic_lower_def basic_word_def category_score_def word_boundary_def nth_opt_def

lemma primary_happy_laughter:
  "primary_scores basic_platform (asc '' happy laughter '') emotion_lexicon ([], 0)
     = ([(asc ''joy'', 4)], 4)"
  by (simp add: eval_defs emotion_lexicon_def)

lemma blob_happy_laughter:
  "str_lower basic_platform ([] @ asc '' '' @ asc ''happy laughter'' @ asc '' '' @ join (asc '' '') [])
     = asc '' happy laughter ''"
  by (simp add: asc_def basic_platform_def basic_lower_def)

lemma round3_one: "round3 1 = 1"
  by (simp add: round3_def round_half_even_def)

lemma profile_happy_laughter:
  "emotion_profile (analyze_movie_emotion basic_platform (asc ''happy laughter'') [] [] None)
     = [(asc ''joy'', 1)]"
  unfolding analyze_profile scored_def blob_happy_laughter Let_def primary_happy_laughter
  by (simp add: normalize_scores_def round3_one)

text \<open>
  Claim C2. A non-empty profile returned by the scorer has at most ten values, each within
  half a thousandth of its exact share, so their sum differs from 1 by at most
  \<open>n / 2000\<close> for \<open>n\<close> values, that is by at most 0.005. The same holds for the ten
  values that the JSON loader produces by zero-filling and renormalising, whenever the
  zero-filled values have a positive sum.
\<close>

theorem profile_values_sum_to_one:
  "(emotion_profile (analyze_movie_emotion P overview tagline keywords genres) \<noteq> [] \<longrightarrow>
      \<bar>sum_list (dict_values (emotion_profile (analyze_movie_emotion P overview tagline keywords genres))) - 1\<bar>
        \<le> real (length (emotion_profile (analyze_movie_emotion P overview tagline keywords genres))) / 2000
      \<and> length (emotion_profile (analyze_movie_emotion P overview tagline keywords genres)) \<le> 10)
   \<and> (sum_list (dict_values (zero_fill profile)) > 0 \<longrightarrow>
      \<bar>sum_list (dict_values (fix_emotion_profile profile)) - 1\<bar>
        \<le> real (length (fix_emotion_profile profile)) / 2000
      \<and> length (fix_emotion_profile profile) = 10)"
  using scorer_profile_sum [of P overview tagline "keywords" genres] loader_profile_sum [of profile]
  by blast

theorem profile_values_sum_to_one_witness:
  "emotion_profile (analyze_movie_emotion basic_platform (asc ''happy laughter'') [] [] None) \<noteq> []
   \<and> sum_list (dict_values (zero_fill [(asc ''joy'', 1)])) > 0
   \<and> \<bar>sum_list (dict_values (emotion_profile
          (analyze_movie_emotion basic_platform (asc ''happy laughter'') [] [] None))) - 1\<bar> \<le> 5 / 1000
   \<and> \<bar>sum_list (dict_values (fix_emotion_profile [(asc ''joy'', 1)])) - 1\<bar> \<le> 5 / 1000"
proof -
  have a: "emotion_profile (analyze_movie_emotion basic_platform (asc ''happy laughter'') [] [] None) \<noteq> []"
    by (simp add: profile_happy_laughter)
  have b: "sum_list (dict_values (zero_fill [(asc ''joy'', 1)])) > 0"
    by (simp add: zero_fill_def fixed_emotion_labels_def dict_values_def dict_get_def asc_def)
  show ?thesis
    using a b
      profile_values_sum_to_one [of basic_platform "asc ''happy laughter''" "[]" "[]" None "[(asc ''joy'', 1)]"]
    by simp
qed

section \<open>The example of a purely joyful text\<close>

lemma count_from_positive: "w \<noteq> [] \<Longrightarrow> str_in w t \<Longrightarrow> count_from 0 w t > 0"
  by (induction t) auto

lemma str_count_positive: "w \<noteq> [] \<Longrightarrow> str_in w t \<Longrightarrow> str_count t w > 0"
  by (simp add: str_count_def count_from_positive)

lemma category_score_ge: "w \<in> set ws \<Longrightarrow> keyword_score P blob w \<le> category_score P blob ws"
  unfolding category_score_def by (induction ws) auto

lemma primary_scores_no_match:
  "\<forall>(emotion, ws) \<in> set lx. category_score P blob ws = 0 \<Longrightarrow> primary_scores P blob lx st = st"
proof (induction lx arbitrary: st)
  case Nil
  show ?case by simp
next
  case (Cons entry lx)
  obtain emotion ws where entry: "entry = (emotion, ws)"
    by (cases entry)
  obtain d t where st: "st = (d, t)"
    by (cases st)
  show ?case
    using Cons by (simp add: entry st)
qed

lemma emotion_lexicon_joy_first:
  "emotion_lexicon = (asc ''joy'', snd (hd emotion_lexicon)) # tl emotion_lexicon
   \<and> asc ''happy'' \<in> set (snd (hd emotion_lexicon))"
  by (simp add: emotion_lexicon_def)

lemma emotion_lexicon_joy_once: "asc ''joy'' \<notin> fst ` set (tl emotion_lexicon)"
proof -
  have "distinct (map fst emotion_lexicon)"
    using fixed_emotion_labels_distinct by (simp add: emotion_lexicon_keys)
  then have "distinct (asc ''joy'' # map fst (tl emotion_lexicon))"
    using emotion_lexicon_joy_first by (metis fst_conv list.simps(9))
  then show ?thesis by simp
qed

lemma sorted_desc_single: "sorted_desc f [x] = [x]"
  by (simp add: sorted_desc_def)

text \<open>
  Claim C9. If the combined lower-cased text contains "happy" and "laughter" and no keyword
  of another category is counted in it (short keywords by the anchored match, longer ones
  by substring count), then the normalised profile is joy alone with score 1.0, and joy is
  the only dominant emotion.
\<close>

theorem happy_laughter_is_pure_joy:
  assumes "blob = str_lower P (tagline @ asc '' '' @ overview @ asc '' '' @ join (asc '' '') keywords)"
    and "str_in (asc ''happy'') blob" and "str_in (asc ''laughter'') blob"
    and "\<forall>(emotion, ws) \<in> set emotion_lexicon. emotion \<noteq> asc ''joy'' \<longrightarrow> category_score P blob ws = 0"
  shows "emotion_profile (analyze_movie_emotion P overview tagline keywords genres) = [(asc ''joy'', 1)]
         \<and> dominant_emotions (analyze_movie_emotion P overview tagline keywords genres) = [asc ''joy'']"
proof -
  define jw where "jw = snd (hd emotion_lexicon)"
  define rest where "rest = tl emotion_lexicon"
  define s where "s = category_score P blob jw"
  have lx: "emotion_lexicon = (asc ''joy'', jw) # rest" and happy: "asc ''happy'' \<in> set jw"
    using emotion_lexicon_joy_first by (simp_all add: jw_def rest_def)
  have "keyword_score P blob (asc ''happy'') > 0"
    using str_count_positive [OF _ assms(2)] by (simp add: keyword_score_def asc_def)
  then have s: "s > 0"
    using category_score_ge [OF happy, of P blob] by (simp add: s_def)
  have "\<forall>(emotion, ws) \<in> set rest. category_score P blob ws = 0"
  proof (clarify)
    fix emotion ws
    assume m: "(emotion, ws) \<in> set rest"
    then have "emotion \<noteq> asc ''joy''"
      using emotion_lexicon_joy_once by (force simp: rest_def)
    moreover have "(emotion, ws) \<in> set emotion_lexicon"
      using m by (simp add: lx)
    ultimately show "category_score P blob ws = 0"
      using assms(4) by blast
  qed
  then have "primary_scores P blob rest ([(asc ''joy'', s)], s) = ([(asc ''joy'', s)], s)"
    by (rule primary_scores_no_match)
  then have pr: "primary_scores P blob emotion_lexicon ([], 0) = ([(asc ''joy'', s)], s)"
    using s by (simp add: lx s_def Let_def)
  have sc: "scored P overview tagline keywords genres = ([(asc ''joy'', s)], s)"
    unfolding scored_def assms(1) [symmetric] Let_def pr by simp
  have "real s / real s = 1"
    using s by simp
  then have n: "normalize_scores [(asc ''joy'', s)] s = [(asc ''joy'', 1)]"
    using s by (simp add: normalize_scores_def round3_one)
  show ?thesis
    by (simp add: analyze_movie_emotion_def Let_def sc n sorted_desc_single)
qed

lemma category_scores_happy_laughter:
  "map (\<lambda>(emotion, ws). (emotion, category_score basic_platform (asc '' happy laughter '') ws))
     emotion_lexicon
   = [(asc ''joy'', 4), (asc ''sadness'', 0), (asc ''anger'', 0), (asc ''fear'', 0),
      (asc ''love'', 0), (asc ''hope'', 0), (asc ''loneliness'', 0), (asc ''inspiration'', 0),
      (asc ''tension'', 0), (asc ''peace'', 0)]"
  by (simp add: eval_defs emotion_lexicon_def)

lemma other_categories_silent:
  "\<forall>(emotion, ws) \<in> set emotion_lexicon.
     emotion \<noteq> asc ''joy'' \<longrightarrow> category_score basic_platform (asc '' happy laughter '') ws = 0"
proof (clarify)
  fix emotion ws
  assume m: "(emotion, ws) \<in> set emotion_lexicon" and n: "emotion \<noteq> asc ''joy''"
  define f :: "ustr \<times> ustr list \<Rightarrow> ustr \<times> nat"
    where "f = (\<lambda>(emotion, ws). (emotion, category_score basic_platform (asc '' happy laughter '') ws))"
  have "f (emotion, ws) \<in> set (map f emotion_lexicon)"
    using m by simp
  then have "(emotion, category_score basic_platform (asc '' happy laughter '') ws)
               \<in> set [(asc ''joy'', 4), (asc ''sadness'', 0), (asc ''anger'', 0), (asc ''fear'', 0),
                       (asc ''love'', 0), (asc ''hope'', 0), (asc ''loneliness'', 0),
                       (asc ''inspiration'', 0), (asc ''tension'', 0), (asc ''peace'', 0)]"
    unfolding f_def category_scores_happy_laughter by simp
  then show "category_score basic_platform (asc '' happy laughter '') ws = 0"
    using n by auto
qed

lemma happy_laughter_occur:
  "str_in (asc ''happy'') (asc '' happy laughter '') \<and> str_in (asc ''laughter'') (asc '' happy laughter '')"
  by (simp add: asc_def startswith_def)

theorem happy_laughter_is_pure_joy_witness:
  "str_in (asc ''happy'') (asc '' happy laughter '') \<and> str_in (asc ''laughter'') (asc '' happy laughter '')
   \<and> map (\<lambda>(emotion, ws). (emotion, category_score basic_platform (asc '' happy laughter '') ws))
         emotion_lexicon
       = [(asc ''joy'', 4), (asc ''sadness'', 0), (asc ''anger'', 0), (asc ''fear'', 0),
          (asc ''love'', 0), (asc ''hope'', 0), (asc ''loneliness'', 0), (asc ''inspiration'', 0),
          (asc ''tension'', 0), (asc ''peace'', 0)]
   \<and> emotion_profile (analyze_movie_emotion basic_platform (asc ''happy laughter'') [] [] None)
        = [(asc ''joy'', 1)]
   \<and> dominant_emotions (analyze_movie_emotion basic_platform (asc ''happy laughter'') [] [] None)
        = [asc ''joy'']"
proof -
  have a: "str_in (asc ''happy'') (asc '' happy laughter '')"
    using happy_laughter_occur by (rule conjunct1)
  have b: "str_in (asc ''laughter'') (asc '' happy laughter '')"
    using happy_laughter_occur by (rule conjunct2)
  have c: "emotion_profile (analyze_movie_emotion basic_platform (asc ''happy laughter'') [] [] None)
             = [(asc ''joy'', 1)]
           \<and> dominant_emotions (analyze_movie_emotion basic_platform (asc ''happy laughter'') [] [] None)
             = [asc ''joy'']"
    by (rule happy_laughter_is_pure_joy [OF blob_happy_laughter [symmetric] a b other_categories_silent])
  show ?thesis
    by (intro conjI a b category_scores_happy_laughter conjunct1 [OF c] conjunct2 [OF c])
qed

section \<open>The fallback chain\<close>

lemma known_movie_scores_no_title:
  "\<not> any_in (map fst tbl) low \<Longrightarrow> known_movie_scores low tbl d = d"
  by (induction tbl) (auto simp: any_in_def)

lemma fallback_as_chain:
  "fallback_emotion_analysis P overview tagline keywords genres
     = first_nonempty
         [known_movie_scores (title_lower_of P overview) known_movie_emotions
            (first_nonempty [strategy_extended P overview tagline, strategy_genre genres]),
          strategy_guess P overview tagline]"
proof -
  define s1 where "s1 = strategy_extended P overview tagline"
  define s2 where "s2 = (case genres of None \<Rightarrow> s1
                          | Some gs \<Rightarrow> if gs \<noteq> [] \<and> s1 = [] then genre_scores gs s1 else s1)"
  define s3 where "s3 = known_movie_scores (title_lower_of P overview) known_movie_emotions s2"
  have f: "fallback_emotion_analysis P overview tagline keywords genres
             = (if s3 = [] then strategy_guess P overview tagline else s3)"
    unfolding fallback_emotion_analysis_def Let_def s3_def s2_def s1_def strategy_extended_def
      strategy_guess_def title_text_of_def title_lower_of_def
    by (rule refl)
  have "s2 = first_nonempty [s1, strategy_genre genres]"
  proof (cases genres)
    case None
    then show ?thesis by (simp add: s2_def strategy_genre_def)
  next
    case (Some gs)
    then show ?thesis by (cases gs) (auto simp: s2_def strategy_genre_def)
  qed
  then show ?thesis
    unfolding f s3_def s1_def by simp
qed

text \<open>
  Claim C1, as amended. When the primary pass finds nothing the scorer takes the result of
  the fallback. The fallback tries the extended lexicon first and the genre table only if
  that gave nothing; the scores of the first known title found in the overview are then
  added to whatever these two gave, also when they gave a non-zero score; the guess
  (heuristics and default) is used only if nothing came before. So the fallback is the
  chain that stops at the first strategy with a score whenever no known title occurs in
  the overview or the first two strategies gave nothing.
\<close>

theorem fallback_chain_amended:
  "(fst (primary_scores P
           (str_lower P (tagline @ asc '' '' @ overview @ asc '' '' @ join (asc '' '') keywords))
           emotion_lexicon ([], 0)) = []
      \<longrightarrow> fst (scored P overview tagline keywords genres)
           = fallback_emotion_analysis P overview tagline keywords genres)
   \<and> fallback_emotion_analysis P overview tagline keywords genres
       = first_nonempty
           [known_movie_scores (title_lower_of P overview) known_movie_emotions
              (first_nonempty [strategy_extended P overview tagline, strategy_genre genres]),
            strategy_guess P overview tagline]
   \<and> (\<not> any_in (map fst known_movie_emotions) (title_lower_of P overview)
       \<or> first_nonempty [strategy_extended P overview tagline, strategy_genre genres] = []
      \<longrightarrow> fallback_emotion_analysis P overview tagline keywords genres
           = spec_fallback_chain P overview tagline genres)"
proof (intro conjI impI)
  assume "fst (primary_scores P
           (str_lower P (tagline @ asc '' '' @ overview @ asc '' '' @ join (asc '' '') keywords))
           emotion_lexicon ([], 0)) = []"
  then show "fst (scored P overview tagline keywords genres)
           = fallback_emotion_analysis P overview tagline keywords genres"
    by (simp add: scored_def Let_def case_prod_beta)
next
  show "fallback_emotion_analysis P overview tagline keywords genres
       = first_nonempty
           [known_movie_scores (title_lower_of P overview) known_movie_emotions
              (first_nonempty [strategy_extended P overview tagline, strategy_genre genres]),
            strategy_guess P overview tagline]"
    by (rule fallback_as_chain)
next
  assume a: "\<not> any_in (map fst known_movie_emotions) (title_lower_of P overview)
       \<or> first_nonempty [strategy_extended P overview tagline, strategy_genre genres] = []"
  show "fallback_emotion_analysis P overview tagline keywords genres
           = spec_fallback_chain P overview tagline genres"
  proof (cases "first_nonempty [strategy_extended P overview tagline, strategy_genre genres] = []")
    case True
    then show ?thesis
      unfolding fallback_as_chain spec_fallback_chain_def strategy_known_def
      by (simp split: if_splits)
  next
    case False
    then have "\<not> any_in (map fst known_movie_emotions) (title_lower_of P overview)"
      using a by blast
    then have k: "\<And>d. known_movie_scores (title_lower_of P overview) known_movie_emotions d = d"
      by (rule known_movie_scores_no_title)
    show ?thesis
      unfolding fallback_as_chain spec_fallback_chain_def strategy_known_def k
      by simp
  qed
qed

text \<open>
  Evaluation on two overviews without tagline, keywords and genres: "war", and "war"
  preceded by the known title U+6559 U+7236 ("The Godfather") and a space, which is the
  code point list 25945, 29238, 32, 119, 97, 114.
\<close>

lemma blob_war:
  "str_lower basic_platform ([] @ asc '' '' @ asc ''war'' @ asc '' '' @ join (asc '' '') [])
     = asc '' war ''"
  by (simp add: asc_def basic_platform_def basic_lower_def)

lemma primary_war:
  "primary_scores basic_platform (asc '' war '') emotion_lexicon ([], 0) = ([], 0)"
  by (simp add: eval_defs emotion_lexicon_def)

lemma no_known_title_war:
  "\<not> any_in (map fst known_movie_emotions) (title_lower_of basic_platform (asc ''war''))"
  by (simp add: any_in_def known_movie_emotions_def title_lower_of_def basic_platform_def
      basic_lower_def asc_def startswith_def)

lemma blob_godfather_war:
  "str_lower basic_platform
     ([] @ asc '' '' @ [25945, 29238, 32, 119, 97, 114] @ asc '' '' @ join (asc '' '') [])
     = [32, 25945, 29238, 32, 119, 97, 114, 32]"
  by (simp add: asc_def basic_platform_def basic_lower_def)

lemma primary_godfather_war:
  "primary_scores basic_platform [32, 25945, 29238, 32, 119, 97, 114, 32] emotion_lexicon ([], 0)
     = ([], 0)"
  by (simp add: eval_defs emotion_lexicon_def)

lemma extended_godfather_war:
  "strategy_extended basic_platform [25945, 29238, 32, 119, 97, 114] [] = [(asc ''anger'', 1)]"
  by (simp add: strategy_extended_def title_text_of_def extended_emotion_lexicon_def
      extended_word_score_def asc_def basic_platform_def basic_lower_def startswith_def)

lemma known_godfather_war:
  "known_movie_scores (title_lower_of basic_platform [25945, 29238, 32, 119, 97, 114])
     known_movie_emotions [(asc ''anger'', 1)]
     = [(asc ''anger'', 3), (asc ''tension'', 3), (asc ''sadness'', 2)]"
  by (simp add: known_movie_emotions_def title_lower_of_def basic_platform_def basic_lower_def
      asc_def startswith_def dict_get_def)

lemma fallback_godfather_war:
  "fallback_emotion_analysis basic_platform [25945, 29238, 32, 119, 97, 114] [] [] None
     = [(asc ''anger'', 3), (asc ''tension'', 3), (asc ''sadness'', 2)]"
proof -
  have e: "first_nonempty [[(asc ''anger'', 1::nat)], strategy_genre None] = [(asc ''anger'', 1)]"
    by simp
  show ?thesis
    unfolding fallback_as_chain extended_godfather_war e known_godfather_war by simp
qed

lemma spec_chain_godfather_war:
  "spec_fallback_chain basic_platform [25945, 29238, 32, 119, 97, 114] [] None = [(asc ''anger'', 1)]"
  unfolding spec_fallback_chain_def extended_godfather_war by simp

text \<open>
  The claim C1 as stated fails on the second overview: the primary pass finds nothing, the
  extended lexicon scores anger with 1 for "war", and still the known title adds its
  scores, so the result is not that of the first successful strategy.
\<close>

theorem fallback_chain_counterexample:
  "fst (primary_scores basic_platform
          (str_lower basic_platform
             ([] @ asc '' '' @ [25945, 29238, 32, 119, 97, 114] @ asc '' '' @ join (asc '' '') []))
          emotion_lexicon ([], 0)) = []
   \<and> strategy_extended basic_platform [25945, 29238, 32, 119, 97, 114] [] = [(asc ''anger'', 1)]
   \<and> fallback_emotion_analysis basic_platform [25945, 29238, 32, 119, 97, 114] [] [] None
       = [(asc ''anger'', 3), (asc ''tension'', 3), (asc ''sadness'', 2)]
   \<and> fallback_emotion_analysis basic_platform [25945, 29238, 32, 119, 97, 114] [] [] None
       \<noteq> spec_fallback_chain basic_platform [25945, 29238, 32, 119, 97, 114] [] None"
proof -
  have "fst (primary_scores basic_platform
          (str_lower basic_platform
             ([] @ asc '' '' @ [25945, 29238, 32, 119, 97, 114] @ asc '' '' @ join (asc '' '') []))
          emotion_lexicon ([], 0)) = []"
    unfolding blob_godfather_war primary_godfather_war by simp
  moreover have "fallback_emotion_analysis basic_platform [25945, 29238, 32, 119, 97, 114] [] [] None
       \<noteq> spec_fallback_chain basic_platform [25945, 29238, 32, 119, 97, 114] [] None"
    unfolding fallback_godfather_war spec_chain_godfather_war by simp
  ultimately show ?thesis
    using extended_godfather_war fallback_godfather_war by blast
qed

theorem fallback_chain_amended_witness:
  "fst (primary_scores basic_platform
          (str_lower basic_platform ([] @ asc '' '' @ asc ''war'' @ asc '' '' @ join (asc '' '') []))
          emotion_lexicon ([], 0)) = []
   \<and> \<not> any_in (map fst known_movie_emotions) (title_lower_of basic_platform (asc ''war''))
   \<and> fst (scored basic_platform (asc ''war'') [] [] None)
       = fallback_emotion_analysis basic_platform (asc ''war'') [] [] None
   \<and> fallback_emotion_analysis basic_platform (asc ''war'') [] [] None
       = spec_fallback_chain basic_platform (asc ''war'') [] None"
proof -
  have a: "fst (primary_scores basic_platform
          (str_lower basic_platform ([] @ asc '' '' @ asc ''war'' @ asc '' '' @ join (asc '' '') []))
          emotion_lexicon ([], 0)) = []"
    unfolding blob_war primary_war by simp
  show ?thesis
    using a no_known_title_war
      fallback_chain_amended [of basic_platform "[]" "asc ''war''" "[]" None]
    by blast
qed

section \<open>Export and reload of a profile\<close>

lemma dict_get_absent: "k \<notin> fst ` set d \<Longrightarrow> dict_get d k dflt = dflt"
  using map_of_eq_None_iff [of d k] by (simp add: dict_get_def)

lemma values_by_keys:
  "distinct (map fst d) \<Longrightarrow> map (\<lambda>k. dict_get d k dflt) (map fst d) = map snd d"
  by (induction d) (auto simp: dict_get_def image_iff)

lemma sum_zero_fill:
  assumes "distinct (map fst p)" and "set (map fst p) \<subseteq> set fixed_emotion_labels"
  shows "sum_list (dict_values (zero_fill p)) = sum_list (dict_values p)"
proof -
  have "sum_list (dict_values (zero_fill p)) = sum_list (map (\<lambda>k. dict_get p k 0) fixed_emotion_labels)"
    by (simp add: zero_fill_def dict_values_def comp_def)
  also have "\<dots> = sum (\<lambda>k. dict_get p k 0) (set fixed_emotion_labels)"
    using fixed_emotion_labels_distinct by (simp add: sum_list_distinct_conv_sum_set)
  also have "\<dots> = sum (\<lambda>k. dict_get p k 0) (set (map fst p))"
  proof (rule sum.mono_neutral_right)
    show "finite (set fixed_emotion_labels)" by simp
    show "set (map fst p) \<subseteq> set fixed_emotion_labels" by (rule assms(2))
    show "\<forall>i\<in>set fixed_emotion_labels - set (map fst p). dict_get p i 0 = 0"
      by (simp add: dict_get_absent)
  qed
  also have "\<dots> = sum_list (map (\<lambda>k. dict_get p k 0) (map fst p))"
    using assms(1) by (simp only: sum_list_distinct_conv_sum_set)
  also have "\<dots> = sum_list (dict_values p)"
    by (simp only: values_by_keys [OF assms(1)] dict_values_def)
  finally show ?thesis .
qed

lemma map_of_table:
  "k \<in> set ks \<Longrightarrow> map_of (map (\<lambda>k. (k, f k)) ks) k = Some (f k)"
  by (induction ks) auto

lemma dict_get_table:
  "k \<in> set ks \<Longrightarrow> dict_get (map (\<lambda>k. (k, f k)) ks) k dflt = f k"
  by (simp add: dict_get_def map_of_table)

lemma keys_fix_emotion_profile: "map fst (fix_emotion_profile p) = fixed_emotion_labels"
  by (simp add: fix_emotion_profile_def Let_def zero_fill_def comp_def case_prod_beta)

lemma dict_get_fix_emotion_profile:
  assumes "e \<in> set fixed_emotion_labels"
  shows "dict_get (fix_emotion_profile p) e 0
           = (if sum_list (dict_values (zero_fill p)) > 0
              then round3 (dict_get p e 0 / sum_list (dict_values (zero_fill p)))
              else dict_get p e 0)"
proof (cases "sum_list (dict_values (zero_fill p)) > 0")
  case True
  define total where "total = sum_list (dict_values (zero_fill p))"
  have "fix_emotion_profile p
          = map (\<lambda>k. (k, round3 (dict_get p k 0 / total))) fixed_emotion_labels"
    using True by (simp add: fix_emotion_profile_def Let_def total_def zero_fill_def)
  then show ?thesis
    using True assms by (simp add: dict_get_table total_def)
next
  case False
  then have "fix_emotion_profile p = map (\<lambda>k. (k, dict_get p k 0)) fixed_emotion_labels"
    by (simp add: fix_emotion_profile_def Let_def zero_fill_def)
  then show ?thesis
    using False assms by (simp add: dict_get_table)
qed

lemma dict_get_cases: "dict_get d k dflt = dflt \<or> dict_get d k dflt \<in> snd ` set d"
proof (cases "map_of d k")
  case None
  then show ?thesis by (simp add: dict_get_def)
next
  case (Some v)
  then have "(k, v) \<in> set d"
    by (rule map_of_SomeD)
  then have "v \<in> snd ` set d"
    by force
  then show ?thesis
    using Some by (simp add: dict_get_def)
qed

lemma round3_zero: "round3 0 = 0"
  by (simp add: round3_def round_half_even_def)

lemma normalize_scores_rounded:
  "v \<in> snd ` set (normalize_scores d t) \<Longrightarrow> round3 v = v"
  by (auto simp: normalize_scores_def round3_idem split: if_splits)

lemma build_profile:
  "emotion_profile (build_movie_data P tmdb_id ttl overview tagline keywords genres)
     = emotion_profile (analyze_movie_emotion P overview tagline keywords (Some genres))"
  by (simp add: build_movie_data_def Let_def)

lemma loaded_profiles:
  "map emotion_profile (load_movies_from_json data)
     = map (\<lambda>m. fix_emotion_profile (emotion_profile m)) data"
  by (simp add: load_movies_from_json_def comp_def)

lemma exported_profile_facts:
  assumes "exported = emotion_profile (build_movie_data P tmdb_id ttl overview tagline keywords genres)"
  shows "distinct (map fst exported)" and "set (map fst exported) \<subseteq> set fixed_emotion_labels"
    and "round3 (dict_get exported e 0) = dict_get exported e 0"
    and "exported \<noteq> [] \<Longrightarrow> sum_list (dict_values exported) > 0"
proof -
  obtain d t where s: "scored P overview tagline keywords (Some genres) = (d, t)"
    by (cases "scored P overview tagline keywords (Some genres)")
  have inv: "t = sum_list (map snd d)" "distinct (map fst d)"
    "set (map fst d) \<subseteq> set fixed_emotion_labels"
    using scored_invariant [OF s] by simp_all
  have p: "exported = normalize_scores d t"
    by (simp add: assms build_profile analyze_profile s)
  have k: "map fst exported = (if t > 0 then map fst d else [])"
    by (simp add: p normalize_scores_def case_prod_beta comp_def)
  show "distinct (map fst exported)"
    using inv(2) by (simp add: k)
  show "set (map fst exported) \<subseteq> set fixed_emotion_labels"
    using inv(3) by (cases "t > 0") (simp_all add: k del: set_map)
  show "round3 (dict_get exported e 0) = dict_get exported e 0"
    using dict_get_cases [of exported e 0] normalize_scores_rounded [of _ d t]
    by (auto simp: p round3_zero)
  show "sum_list (dict_values exported) > 0" if "exported \<noteq> []"
  proof -
    have "\<bar>sum_list (dict_values exported) - 1\<bar> \<le> real (length exported) / 2000"
      and "length exported \<le> 10"
      using scorer_profile_sum [of P overview tagline "keywords" "Some genres"] that
      by (simp_all add: assms build_profile)
    then show ?thesis
      by linarith
  qed
qed

text \<open>
  Claim C6, as amended. For a merged record of the batch builder, written to the JSON
  corpus and loaded again, the reloaded profile has exactly the ten fixed categories. For
  each of them the reloaded value is the exported value (0.0 if the category was not
  exported) divided by the sum of the exported values and rounded to three decimals
  again. It equals the exported value on the shared categories, and 0 on the added ones,
  whenever the exported values sum to exactly 1; an empty exported profile reloads as ten
  zeros.
\<close>

theorem reload_profile_amended:
  assumes "exported = emotion_profile (build_movie_data P tmdb_id ttl overview tagline keywords genres)"
    and "e \<in> set fixed_emotion_labels"
  shows "map emotion_profile
           (load_movies_from_json [build_movie_data P tmdb_id ttl overview tagline keywords genres])
           = [fix_emotion_profile exported]
         \<and> map fst (fix_emotion_profile exported) = fixed_emotion_labels
         \<and> (exported \<noteq> [] \<longrightarrow>
              dict_get (fix_emotion_profile exported) e 0
                = round3 (dict_get exported e 0 / sum_list (dict_values exported)))
         \<and> (sum_list (dict_values exported) = 1 \<longrightarrow>
              dict_get (fix_emotion_profile exported) e 0 = dict_get exported e 0)
         \<and> (exported = [] \<longrightarrow> dict_get (fix_emotion_profile exported) e 0 = 0)"
proof -
  note facts = exported_profile_facts [OF assms(1)]
  have z: "sum_list (dict_values (zero_fill exported)) = sum_list (dict_values exported)"
    using facts(1,2) by (rule sum_zero_fill)
  note g = dict_get_fix_emotion_profile [OF assms(2), of exported, unfolded z]
  have 1: "map emotion_profile
           (load_movies_from_json [build_movie_data P tmdb_id ttl overview tagline keywords genres])
           = [fix_emotion_profile exported]"
    by (simp add: loaded_profiles assms(1))
  have 3: "dict_get (fix_emotion_profile exported) e 0
                = round3 (dict_get exported e 0 / sum_list (dict_values exported))"
    if "exported \<noteq> []"
    using facts(4) [OF that] by (simp add: g)
  have 4: "dict_get (fix_emotion_profile exported) e 0 = dict_get exported e 0"
    if "sum_list (dict_values exported) = 1"
    using that facts(3) [of e] by (simp add: g)
  have 5: "dict_get (fix_emotion_profile exported) e 0 = 0" if "exported = []"
    unfolding g using that by (simp add: dict_values_def dict_get_def)
  show ?thesis
    using 1 keys_fix_emotion_profile [of exported] 3 4 5 by blast
qed

text \<open>Evaluation on the overview "tear fear adore adore".\<close>

lemma blob_tear_fear_adore:
  "str_lower basic_platform
     ([] @ asc '' '' @ asc ''tear fear adore adore'' @ asc '' '' @ join (asc '' '') [])
     = asc '' tear fear adore adore ''"
  by (simp add: asc_def basic_platform_def basic_lower_def)

lemma primary_tear_fear_adore:
  "primary_scores basic_platform (asc '' tear fear adore adore '') emotion_lexicon ([], 0)
     = ([(asc ''sadness'', 1), (asc ''fear'', 1), (asc ''love'', 4)], 6)"
  by (simp add: eval_defs emotion_lexicon_def)

lemma round3_sixths: "round3 (1 / 6) = 167 / 1000 \<and> round3 (4 / 6) = 667 / 1000"
  by (simp add: round3_def round_half_even_def Let_def)

lemma profile_tear_fear_adore:
  "emotion_profile (build_movie_data basic_platform 1 [] (asc ''tear fear adore adore'') [] [] [])
     = [(asc ''sadness'', 167 / 1000), (asc ''fear'', 167 / 1000), (asc ''love'', 667 / 1000)]"
  unfolding build_profile analyze_profile scored_def blob_tear_fear_adore Let_def primary_tear_fear_adore
  using round3_sixths by (simp add: normalize_scores_def)

lemma reload_tear_fear_adore:
  "fix_emotion_profile [(asc ''sadness'', 167 / 1000), (asc ''fear'', 167 / 1000), (asc ''love'', 667 / 1000)]
     = [(asc ''joy'', 0), (asc ''sadness'', 167 / 1000), (asc ''anger'', 0), (asc ''fear'', 167 / 1000),
        (asc ''love'', 666 / 1000), (asc ''hope'', 0), (asc ''loneliness'', 0),
        (asc ''inspiration'', 0), (asc ''tension'', 0), (asc ''peace'', 0)]"
  by (simp add: fix_emotion_profile_def zero_fill_def fixed_emotion_labels_def dict_get_def
      dict_values_def asc_def round3_def round_half_even_def Let_def)

text \<open>
  The claim C6 as stated fails here: the exported values 0.167, 0.167 and 0.667 sum to
  1.001, and the renormalisation turns 0.667 into 0.666.
\<close>

theorem reload_profile_counterexample:
  "emotion_profile (build_movie_data basic_platform 1 [] (asc ''tear fear adore adore'') [] [] [])
     = [(asc ''sadness'', 167 / 1000), (asc ''fear'', 167 / 1000), (asc ''love'', 667 / 1000)]
   \<and> map emotion_profile
         (load_movies_from_json
            [build_movie_data basic_platform 1 [] (asc ''tear fear adore adore'') [] [] []])
     = [[(asc ''joy'', 0), (asc ''sadness'', 167 / 1000), (asc ''anger'', 0), (asc ''fear'', 167 / 1000),
         (asc ''love'', 666 / 1000), (asc ''hope'', 0), (asc ''loneliness'', 0),
         (asc ''inspiration'', 0), (asc ''tension'', 0), (asc ''peace'', 0)]]"
  unfolding loaded_profiles list.map profile_tear_fear_adore reload_tear_fear_adore by simp

lemma profile_built_happy_laughter:
  "emotion_profile (build_movie_data basic_platform 1 [] (asc ''happy laughter'') [] [] [])
     = [(asc ''joy'', 1)]"
  unfolding build_profile analyze_profile scored_def blob_happy_laughter Let_def primary_happy_laughter
  by (simp add: normalize_scores_def round3_one)

theorem reload_profile_amended_witness:
  "[(asc ''joy'', 1)]
     = emotion_profile (build_movie_data basic_platform 1 [] (asc ''happy laughter'') [] [] [])
   \<and> asc ''joy'' \<in> set fixed_emotion_labels
   \<and> sum_list (dict_values [(asc ''joy'', 1::real)]) = 1
   \<and> dict_get (fix_emotion_profile [(asc ''joy'', 1)]) (asc ''joy'') 0 = 1"
proof -
  have a: "[(asc ''joy'', 1)]
     = emotion_profile (build_movie_data basic_platform 1 [] (asc ''happy laughter'') [] [] [])"
    by (simp add: profile_built_happy_laughter)
  have b: "asc ''joy'' \<in> set fixed_emotion_labels"
    by (simp add: fixed_emotion_labels_def)
  have c: "sum_list (dict_values [(asc ''joy'', 1::real)]) = 1"
    by (simp add: dict_values_def)
  have d: "dict_get [(asc ''joy'', 1::real)] (asc ''joy'') 0 = 1"
    by (simp add: dict_get_def)
  show ?thesis
    using a b c d reload_profile_amended [OF a b] by simp
qed

section \<open>The emotion vector matrix and the exported emotion columns\<close>

lemma emotion_columns_props:
  "sorted (emotion_columns movie_data) \<and> distinct (emotion_columns movie_data)
   \<and> set (emotion_columns movie_data) = (\<Union>m \<in> set movie_data. fst ` set (emotion_profile m))"
  by (auto simp: emotion_columns_def)

lemma clamp_unit: "0 \<le> v \<Longrightarrow> v \<le> 1 \<Longrightarrow> max 0 (min 1 v) = (v::real)"
  by simp

lemma dict_get_in_unit:
  assumes "list_all (\<lambda>v. 0 \<le> v \<and> v \<le> 1) (dict_values d)"
  shows "0 \<le> dict_get d k 0 \<and> dict_get d k 0 \<le> (1::real)"
proof -
  have "dict_get d k 0 = 0 \<or> dict_get d k 0 \<in> snd ` set d"
    by (rule dict_get_cases)
  then show ?thesis
    using assms by (auto simp: list_all_iff dict_values_def)
qed

lemma fixed_emotion_labels_sorted:
  "sort fixed_emotion_labels
     = [asc ''anger'', asc ''fear'', asc ''hope'', asc ''inspiration'', asc ''joy'',
        asc ''loneliness'', asc ''love'', asc ''peace'', asc ''sadness'', asc ''tension'']"
  by (simp add: fixed_emotion_labels_def asc_def)

text \<open>
  Claim C7, as amended. The matrix built by the recommender index has one row per record
  and the ten fixed categories as columns, in the order of the recommender's own label
  list (joy, sadness, anger, fear, love, hope, loneliness, inspiration, tension, peace),
  which is not the alphabetical order. Each entry is the profile's value for the column,
  0 if the profile has none, clamped to the interval from 0 to 1, so a row is the densified
  profile whenever the profile's values lie in that interval. The emotion columns of the
  crawler's CSV file are the categories that occur in some exported profile, each once, in
  alphabetical order, and every row holds the profile's value per column, 0.0 if absent.
\<close>

theorem emotion_matrix_amended:
  assumes "i < length ms" and "j < length fixed_emotion_labels"
  shows "emotion_labels (index_movies L r ms)
           = [asc ''joy'', asc ''sadness'', asc ''anger'', asc ''fear'', asc ''love'', asc ''hope'',
              asc ''loneliness'', asc ''inspiration'', asc ''tension'', asc ''peace'']
         \<and> emotion_vectors (index_movies L r ms) = Some (map (emotion_row fixed_emotion_labels) ms)
         \<and> length (map (emotion_row fixed_emotion_labels) ms) = length ms
         \<and> length (emotion_row fixed_emotion_labels (ms ! i)) = 10
         \<and> emotion_row fixed_emotion_labels (ms ! i) ! j
             = max 0 (min 1 (dict_get (emotion_profile (ms ! i)) (fixed_emotion_labels ! j) 0))
         \<and> (list_all (\<lambda>v. 0 \<le> v \<and> v \<le> 1) (dict_values (emotion_profile (ms ! i)))
              \<longrightarrow> emotion_row fixed_emotion_labels (ms ! i) ! j
                    = dict_get (emotion_profile (ms ! i)) (fixed_emotion_labels ! j) 0)
         \<and> sorted (fst (save_emotion_vectors movie_data))
         \<and> distinct (fst (save_emotion_vectors movie_data))
         \<and> set (fst (save_emotion_vectors movie_data))
             = (\<Union>m \<in> set movie_data. fst ` set (emotion_profile m))
         \<and> map (\<lambda>row. snd (snd row)) (snd (save_emotion_vectors movie_data))
             = map (\<lambda>m. map (\<lambda>emotion. dict_get (emotion_profile m) emotion 0)
                            (fst (save_emotion_vectors movie_data))) movie_data"
proof -
  have 1: "emotion_labels (index_movies L r ms)
           = [asc ''joy'', asc ''sadness'', asc ''anger'', asc ''fear'', asc ''love'', asc ''hope'',
              asc ''loneliness'', asc ''inspiration'', asc ''tension'', asc ''peace'']"
    by (simp add: index_movies_def extract_emotion_vectors_def fixed_emotion_labels_def)
  have 2: "emotion_vectors (index_movies L r ms) = Some (map (emotion_row fixed_emotion_labels) ms)"
    by (simp add: index_movies_def extract_emotion_vectors_def)
  have 4: "length (emotion_row fixed_emotion_labels (ms ! i)) = 10"
    using fixed_emotion_labels_distinct by (simp add: emotion_row_def)
  have 5: "emotion_row fixed_emotion_labels (ms ! i) ! j
             = max 0 (min 1 (dict_get (emotion_profile (ms ! i)) (fixed_emotion_labels ! j) 0))"
    using assms(2) by (simp add: emotion_row_def)
  have 6: "emotion_row fixed_emotion_labels (ms ! i) ! j
                    = dict_get (emotion_profile (ms ! i)) (fixed_emotion_labels ! j) 0"
    if "list_all (\<lambda>v. 0 \<le> v \<and> v \<le> 1) (dict_values (emotion_profile (ms ! i)))"
    unfolding 5 using dict_get_in_unit [OF that, of "fixed_emotion_labels ! j"]
    by (intro clamp_unit) simp_all
  have 7: "fst (save_emotion_vectors movie_data) = emotion_columns movie_data"
    by (simp add: save_emotion_vectors_def Let_def)
  have 8: "map (\<lambda>row. snd (snd row)) (snd (save_emotion_vectors movie_data))
             = map (\<lambda>m. map (\<lambda>emotion. dict_get (emotion_profile m) emotion 0)
                            (fst (save_emotion_vectors movie_data))) movie_data"
    by (simp add: save_emotion_vectors_def Let_def comp_def)
  show ?thesis
    using 1 2 4 5 6 8 emotion_columns_props [of movie_data] unfolding 7 by simp
qed

lemma columns_happy_laughter:
  "fst (save_emotion_vectors
          [build_movie_data basic_platform 1 [] (asc ''happy laughter'') [] [] []])
     = [asc ''joy'']"
  by (simp add: save_emotion_vectors_def Let_def emotion_columns_def profile_built_happy_laughter)

text \<open>
  The claim C7 as stated fails on the corpus of one record built from the overview
  "happy laughter": the recommender's columns are not in sorted order, and the CSV file
  has the single emotion column joy instead of the same ten.
\<close>

theorem emotion_matrix_counterexample:
  "emotion_labels (extract_emotion_vectors (init_recommender :: unit recommender)
       [build_movie_data basic_platform 1 [] (asc ''happy laughter'') [] [] []])
     = [asc ''joy'', asc ''sadness'', asc ''anger'', asc ''fear'', asc ''love'', asc ''hope'',
        asc ''loneliness'', asc ''inspiration'', asc ''tension'', asc ''peace'']
   \<and> sort [asc ''joy'', asc ''sadness'', asc ''anger'', asc ''fear'', asc ''love'', asc ''hope'',
            asc ''loneliness'', asc ''inspiration'', asc ''tension'', asc ''peace'']
     = [asc ''anger'', asc ''fear'', asc ''hope'', asc ''inspiration'', asc ''joy'',
        asc ''loneliness'', asc ''love'', asc ''peace'', asc ''sadness'', asc ''tension'']
   \<and> fst (save_emotion_vectors
            [build_movie_data basic_platform 1 [] (asc ''happy laughter'') [] [] []])
     = [asc ''joy'']"
proof -
  have "emotion_labels (extract_emotion_vectors (init_recommender :: unit recommender)
       [build_movie_data basic_platform 1 [] (asc ''happy laughter'') [] [] []])
     = [asc ''joy'', asc ''sadness'', asc ''anger'', asc ''fear'', asc ''love'', asc ''hope'',
        asc ''loneliness'', asc ''inspiration'', asc ''tension'', asc ''peace'']"
    by (simp add: extract_emotion_vectors_def fixed_emotion_labels_def)
  then show ?thesis
    using fixed_emotion_labels_sorted columns_happy_laughter
    unfolding fixed_emotion_labels_def by (intro conjI)
qed

theorem emotion_matrix_amended_witness:
  "(0::nat) < length [build_movie_data basic_platform 1 [] (asc ''happy laughter'') [] [] []]
   \<and> (0::nat) < length fixed_emotion_labels
   \<and> emotion_row fixed_emotion_labels
        ([build_movie_data basic_platform 1 [] (asc ''happy laughter'') [] [] []] ! 0) ! 0
     = dict_get (emotion_profile
          ([build_movie_data basic_platform 1 [] (asc ''happy laughter'') [] [] []] ! 0))
         (fixed_emotion_labels ! 0) 0
   \<and> fst (save_emotion_vectors
            [build_movie_data basic_platform 1 [] (asc ''happy laughter'') [] [] []])
     = [asc ''joy'']"
proof -
  have a: "(0::nat) < length [build_movie_data basic_platform 1 [] (asc ''happy laughter'') [] [] []]"
    by simp
  have b: "(0::nat) < length fixed_emotion_labels"
    using fixed_emotion_labels_distinct by simp
  have c: "list_all (\<lambda>v. 0 \<le> v \<and> v \<le> 1)
             (dict_values (emotion_profile
                ([build_movie_data basic_platform 1 [] (asc ''happy laughter'') [] [] []] ! 0)))"
    by (simp add: profile_built_happy_laughter dict_values_def)
  show ?thesis
    using a b c columns_happy_laughter
      emotion_matrix_amended [OF a b, of "\<lparr>embed_query = \<lambda>q. (), embed_movie = \<lambda>m. (),
          cos_sim = \<lambda>x y. 1, topk = \<lambda>xs k. [], argsort = \<lambda>xs. []\<rparr>" init_recommender "[]"]
    by blast
qed

section \<open>Emotion search: unknown labels and the zero target\<close>

lemma convert_emotions_split:
  "convert_emotions labels target (c, w)
     = (fst (convert_emotions labels
               (filter (\<lambda>(label, v). dict_get emotion_mapping label label \<in> set labels) target) (c, [])),
        w @ filter (\<lambda>label. dict_get emotion_mapping label label \<notin> set labels) (map fst target))"
proof (induction target arbitrary: c w)
  case Nil
  show ?case by simp
next
  case (Cons item target)
  obtain label v where item: "item = (label, v)"
    by (cases item)
  show ?case
    by (cases "dict_get emotion_mapping label label \<in> set labels")
       (simp_all add: item Let_def Cons.IH [of _ w] Cons.IH [of c "w @ [label]"])
qed

lemma indexed_state:
  "emotion_labels (index_movies L r0 ms) = fixed_emotion_labels"
  "emotion_vectors (index_movies L r0 ms) = Some (map (emotion_row fixed_emotion_labels) ms)"
  "movies (index_movies L r0 ms) = ms"
  "semantic_embeddings (index_movies L r0 ms) = Some (map (embed_movie L) ms)"
  by (simp_all add: index_movies_def extract_emotion_vectors_def)

lemma emotion_search_depends_on_converted:
  assumes "fst (convert_emotions (emotion_labels r) t1 ([], []))
             = fst (convert_emotions (emotion_labels r) t2 ([], []))"
  shows "map_sum id results (emotion_search L r t1 top_k)
           = map_sum id results (emotion_search L r t2 top_k)"
  using assms
  by (cases "emotion_vectors r")
     (simp_all add: emotion_search_def Let_def case_prod_beta)

lemma emotion_search_warnings:
  "emotion_search L r target top_k = Inr out \<Longrightarrow>
     warnings out = snd (convert_emotions (emotion_labels r) target ([], []))"
  by (cases "emotion_vectors r")
     (auto simp: emotion_search_def Let_def case_prod_beta split: if_splits)

lemma emotion_search_zero_target:
  assumes "emotion_vectors r \<noteq> None"
    and "list_all (\<lambda>x. x = 0)
           (target_vector_of (emotion_labels r) (fst (convert_emotions (emotion_labels r) target ([], []))))"
  shows "emotion_search L r target top_k
           = Inr \<lparr>warnings = snd (convert_emotions (emotion_labels r) target ([], [])), results = []\<rparr>"
  using assms by (auto simp: emotion_search_def Let_def case_prod_beta)

section \<open>Ranking\<close>

text \<open>The searches on an indexed recommender, in closed form.\<close>

lemma semantic_search_indexed:
  assumes "valid_topk (topk L)" and "0 \<le> top_k"
  shows "semantic_search L (index_movies L r0 ms) query top_k
           = Inr \<lparr>warnings = [],
                  results = map (\<lambda>idx. (\<lparr>hit_movie = ms ! idx,
                                          semantic_score = semantic_similarity L query (ms ! idx),
                                          emotion_score = 0\<rparr>,
                                        semantic_similarity L query (ms ! idx)))
                              (topk L (map (semantic_similarity L query) ms)
                                 (nat (min top_k (int (length ms)))))\<rparr>"
proof -
  define sims where "sims = map (semantic_similarity L query) ms"
  define k where "k = nat (min top_k (int (length ms)))"
  have s: "map (cos_sim L (embed_query L query)) (map (embed_movie L) ms) = sims"
    by (simp add: sims_def semantic_similarity_def [abs_def] comp_def)
  have k: "k \<le> length sims"
    using assms(2) by (simp add: k_def sims_def)
  have idx: "set (topk L sims k) \<subseteq> {..<length sims}"
    using assms(1) k unfolding valid_topk_def by blast
  then have ok: "\<not> list_ex (\<lambda>idx. idx \<ge> length ms \<or> idx \<ge> length sims) (topk L sims k)"
    by (auto simp: list_ex_iff sims_def)
  have m: "map (\<lambda>idx. (\<lparr>hit_movie = ms ! idx, semantic_score = sims ! idx, emotion_score = 0\<rparr>, sims ! idx))
             (topk L sims k)
           = map (\<lambda>idx. (\<lparr>hit_movie = ms ! idx,
                            semantic_score = semantic_similarity L query (ms ! idx),
                            emotion_score = 0\<rparr>,
                          semantic_similarity L query (ms ! idx))) (topk L sims k)"
    using idx by (auto simp: sims_def)
  have neg: "\<not> min top_k (int (length ms)) < 0"
    using assms(2) by simp
  show ?thesis
    unfolding semantic_search_def indexed_state option.case Let_def s
    using ok k neg m
    by (simp add: k_def [symmetric] sims_def [symmetric])
qed

lemma emotion_search_indexed:
  assumes "valid_argsort (argsort L)" and "ms \<noteq> []"
    and "\<not> list_all (\<lambda>x. x = 0)
           (target_vector_of fixed_emotion_labels
              (fst (convert_emotions fixed_emotion_labels target ([], []))))"
  shows "emotion_search L (index_movies L r0 ms) target top_k
           = Inr \<lparr>warnings = snd (convert_emotions fixed_emotion_labels target ([], [])),
                  results = map (\<lambda>idx. (\<lparr>hit_movie = ms ! idx,
                                          semantic_score = 0,
                                          emotion_score = emotion_similarity target (ms ! idx)\<rparr>,
                                        emotion_similarity target (ms ! idx)))
                              (rev (slice_last (min top_k (int (length ms)))
                                      (argsort L (map (emotion_similarity target) ms))))\<rparr>"
proof -
  define tv where "tv = target_vector_of fixed_emotion_labels
              (fst (convert_emotions fixed_emotion_labels target ([], [])))"
  define sims where "sims = map (emotion_similarity target) ms"
  define top where "top = rev (slice_last (min top_k (int (length ms))) (argsort L sims))"
  have s: "map (cosine_similarity tv) (map (emotion_row fixed_emotion_labels) ms) = sims"
    by (simp add: sims_def emotion_similarity_def [abs_def] comp_def tv_def)
  have "set (argsort L sims) = {..<length sims}"
    using assms(1) unfolding valid_argsort_def by blast
  then have idx: "set top \<subseteq> {..<length ms}"
    unfolding top_def slice_last_def
    by (auto simp: sims_def dest: in_set_dropD)
  then have ok: "\<not> list_ex (\<lambda>idx. idx \<ge> length ms \<or> idx \<ge> length sims) top"
    by (auto simp: list_ex_iff sims_def)
  have m: "map (\<lambda>idx. (\<lparr>hit_movie = ms ! idx, semantic_score = 0, emotion_score = sims ! idx\<rparr>, sims ! idx)) top
           = map (\<lambda>idx. (\<lparr>hit_movie = ms ! idx, semantic_score = 0,
                            emotion_score = emotion_similarity target (ms ! idx)\<rparr>,
                          emotion_similarity target (ms ! idx))) top"
    using idx by (auto simp: sims_def)
  have nz: "\<not> list_all (\<lambda>x. x = 0) tv"
    using assms(3) by (simp add: tv_def)
  show ?thesis
    unfolding emotion_search_def indexed_state option.case Let_def case_prod_beta
      tv_def [symmetric] s top_def [symmetric] sims_def [symmetric]
    using assms(2) nz ok m by simp
qed

lemma argsort_length:
  assumes "valid_argsort f"
  shows "length (f xs) = length xs"
proof -
  have "distinct (f xs)" and "set (f xs) = {..<length xs}"
    using assms unfolding valid_argsort_def by blast+
  then have "length (f xs) = card {..<length xs}"
    using distinct_card [of "f xs"] by simp
  then show ?thesis by simp
qed

lemma semantic_search_ranking:
  assumes "valid_topk (topk L)" and "0 \<le> top_k"
  shows "\<exists>out. semantic_search L (index_movies L r0 ms) query top_k = Inr out
           \<and> length (results out) = min (nat top_k) (length ms)
           \<and> sorted (rev (map snd (results out)))"
proof -
  define sims where "sims = map (semantic_similarity L query) ms"
  define k where "k = nat (min top_k (int (length ms)))"
  have k: "k \<le> length sims"
    using assms(2) by (simp add: k_def sims_def)
  have c: "length (topk L sims k) = k" "set (topk L sims k) \<subseteq> {..<length sims}"
    "sorted (rev (map (\<lambda>i. sims ! i) (topk L sims k)))"
    using assms(1) k unfolding valid_topk_def by blast+
  have e: "map (\<lambda>idx. semantic_similarity L query (ms ! idx)) (topk L sims k)
          = map (\<lambda>i. sims ! i) (topk L sims k)"
    using c(2) by (auto simp: sims_def)
  have "sorted (rev (map (\<lambda>idx. semantic_similarity L query (ms ! idx)) (topk L sims k)))"
    unfolding e by (rule c(3))
  moreover have "k = min (nat top_k) (length ms)"
    using assms(2) by (simp add: k_def)
  ultimately show ?thesis
    unfolding semantic_search_indexed [OF assms] sims_def [symmetric] k_def [symmetric]
    using c(1) by (simp add: comp_def)
qed

lemma emotion_search_zero_ranking:
  assumes "list_all (\<lambda>x. x = 0)
           (target_vector_of fixed_emotion_labels
              (fst (convert_emotions fixed_emotion_labels target ([], []))))"
  shows "emotion_search L (index_movies L r0 ms) target top_k
           = Inr \<lparr>warnings = snd (convert_emotions fixed_emotion_labels target ([], [])), results = []\<rparr>"
  using emotion_search_zero_target [of "index_movies L r0 ms" target L top_k] assms
  by (simp add: indexed_state)

lemma map_nth_drop:
  assumes "set perm = {..<length ms}"
  shows "map (\<lambda>idx. f (ms ! idx)) (drop d perm) = drop d (map (\<lambda>i. map f ms ! i) perm)"
proof -
  have "\<And>i. i \<in> set (drop d perm) \<Longrightarrow> i < length ms"
    using assms by (auto dest: in_set_dropD)
  then show ?thesis
    unfolding drop_map by (intro map_cong refl) simp
qed

lemma emotion_search_ranking:
  assumes "valid_argsort (argsort L)" and "ms \<noteq> []" and "1 \<le> top_k"
  shows "\<exists>out. emotion_search L (index_movies L r0 ms) target top_k = Inr out
           \<and> length (results out) \<le> min (nat top_k) (length ms)
           \<and> sorted (rev (map snd (results out)))"
proof (cases "list_all (\<lambda>x. x = 0)
           (target_vector_of fixed_emotion_labels
              (fst (convert_emotions fixed_emotion_labels target ([], []))))")
  case True
  show ?thesis
    unfolding emotion_search_zero_ranking [OF True] by simp
next
  case False
  define sims where "sims = map (emotion_similarity target) ms"
  define perm where "perm = argsort L sims"
  define d where "d = length perm - nat (min top_k (int (length ms)))"
  have len: "length perm = length ms"
    using argsort_length [OF assms(1), of sims] by (simp add: perm_def sims_def)
  have c: "set perm = {..<length ms}" "sorted (map (\<lambda>i. sims ! i) perm)"
    using assms(1) unfolding valid_argsort_def perm_def by (auto simp: sims_def)
  have sl: "slice_last (min top_k (int (length ms))) perm = drop d perm"
    using assms(2,3) by (simp add: slice_last_def d_def)
  have e: "map (\<lambda>idx. emotion_similarity target (ms ! idx)) (drop d perm)
          = drop d (map (\<lambda>i. sims ! i) perm)"
    unfolding sims_def using c(1) by (rule map_nth_drop)
  have "sorted (drop d (map (\<lambda>i. sims ! i) perm))"
    using c(2) by (rule sorted_wrt_drop)
  then have so: "sorted (map (\<lambda>idx. emotion_similarity target (ms ! idx)) (drop d perm))"
    unfolding e .
  have le: "length (drop d perm) \<le> min (nat top_k) (length ms)"
    using assms(3) by (simp add: d_def len) (auto simp: min_def)
  show ?thesis
    unfolding emotion_search_indexed [OF assms(1,2) False] sims_def [symmetric] perm_def [symmetric] sl
    using so le by (simp add: comp_def rev_map)
qed

section \<open>The query-emotion extractor\<close>

text \<open>
  \<open>float_div p q\<close> is within half a unit in the last place of the quotient, which is at
  most \<open>1 / 2 ^ 53\<close> for a quotient not above 1.
\<close>

lemma doublings_spec: "p > 0 \<Longrightarrow> q \<le> 2 ^ doublings p q * p"
proof (induction p q rule: doublings.induct)
  case (1 p q)
  show ?case
  proof (cases "q \<le> p")
    case True
    then show ?thesis
      by (simp add: doublings.simps [of p q])
  next
    case False
    then have "q \<le> 2 ^ doublings (2 * p) q * (2 * p)"
      using "1.IH" "1.prems" by simp
    then show ?thesis
      using False "1.prems" by (simp add: doublings.simps [of p q])
  qed
qed

lemma round_half_even_ge_one: "1 \<le> y \<Longrightarrow> 1 \<le> round_half_even y"
proof -
  assume "1 \<le> y"
  then have "1 \<le> \<lfloor>y\<rfloor>"
    by linarith
  then show ?thesis
    by (simp add: round_half_even_def Let_def)
qed

lemma float_div_positive:
  assumes "0 < p" and "0 < q"
  shows "float_div p q > 0"
proof -
  define k where "k = doublings p q"
  have "real q \<le> real (2 ^ k * p)"
    using doublings_spec [OF assms(1), of q] unfolding k_def by (rule of_nat_mono)
  then have "real q \<le> 2 ^ k * real p"
    by simp
  then have "real q * 1 \<le> real p * 2 ^ (52 + k)"
    using mult_mono [of "real q" "2 ^ k * real p" 1 "2 ^ 52"] by (simp add: power_add mult_ac)
  then have "1 \<le> real p * 2 ^ (52 + k) / real q"
    using assms(2) by (simp add: le_divide_eq)
  then have "1 \<le> round_half_even (real p * 2 ^ (52 + k) / real q)"
    by (rule round_half_even_ge_one)
  then show ?thesis
    by (simp add: float_div_def Let_def k_def [symmetric])
qed

lemma float_div_error:
  assumes "0 < q"
  shows "\<bar>float_div p q - real p / real q\<bar> \<le> 1 / 2 ^ 53"
proof -
  define k where "k = doublings p q"
  define y where "y = real p * 2 ^ (52 + k) / real q"
  have e: "\<bar>real_of_int (round_half_even y) - y\<bar> \<le> 1 / 2"
    by (rule round_half_even_error)
  have "float_div p q - real p / real q = (real_of_int (round_half_even y) - y) / 2 ^ (52 + k)"
    by (simp add: float_div_def Let_def k_def [symmetric] y_def diff_divide_distrib)
  then have "\<bar>float_div p q - real p / real q\<bar> = \<bar>real_of_int (round_half_even y) - y\<bar> / 2 ^ (52 + k)"
    by (simp add: abs_divide)
  also have "\<dots> \<le> (1 / 2) / 2 ^ (52 + k)"
    using e by (intro divide_right_mono) simp_all
  also have "\<dots> \<le> (1 / 2) / 2 ^ 52"
  proof -
    have "(2::real) ^ 52 \<le> 2 ^ (52 + k)"
      by (rule power_increasing) simp_all
    then show ?thesis
      by (intro divide_left_mono) simp_all
  qed
  also have "\<dots> = 1 / 2 ^ 53"
    by simp
  finally show ?thesis .
qed

lemma float_quotients_sum:
  assumes "0 < t"
  shows "\<bar>sum_list (map snd (map (\<lambda>(e, c). (e, float_div c t)) cs))
           - real (sum_list (map snd cs)) / real t\<bar> \<le> real (length cs) / 2 ^ 53"
proof (induction cs)
  case Nil
  show ?case by simp
next
  case (Cons a cs)
  obtain e c where a: "a = (e, c)"
    by (cases a)
  have 1: "\<bar>float_div c t - real c / real t\<bar> \<le> 1 / 2 ^ 53"
    using assms by (rule float_div_error)
  have 2: "sum_list (map snd (map (\<lambda>(e, c). (e, float_div c t)) (a # cs)))
             - real (sum_list (map snd (a # cs))) / real t
           = (float_div c t - real c / real t)
             + (sum_list (map snd (map (\<lambda>(e, c). (e, float_div c t)) cs))
                - real (sum_list (map snd cs)) / real t)"
    by (simp add: a add_divide_distrib)
  have 3: "real (length (a # cs)) / 2 ^ 53 = 1 / 2 ^ 53 + real (length cs) / 2 ^ 53"
    by (simp add: add_divide_distrib)
  show ?case
    unfolding 2 3 using 1 Cons.IH by linarith
qed

lemma float_quotients_positive:
  "0 < t \<Longrightarrow> list_all (\<lambda>(e, c). c > 0) cs \<Longrightarrow>
     list_all (\<lambda>(e, v). v > 0) (map (\<lambda>(e, c). (e, float_div c t)) cs)"
  by (induction cs) (auto simp: float_div_positive)

lemma sum_filter_positive:
  "sum_list (map snd (filter (\<lambda>(e, c). c > 0) cs)) = sum_list (map snd (cs :: ('a \<times> nat) list))"
  by (induction cs) auto

lemma filter_positive_nonempty:
  "sum_list (map snd (cs :: ('a \<times> nat) list)) > 0 \<Longrightarrow> filter (\<lambda>(e, c). c > 0) cs \<noteq> []"
  by (induction cs) auto

lemma float_distribution:
  assumes "0 < t" and "list_all (\<lambda>(e, c). c > 0) cs" and "sum_list (map snd cs) = t"
    and "cs \<noteq> []" and "d = map (\<lambda>(e, c). (e, float_div c t)) cs"
  shows "d \<noteq> [] \<and> list_all (\<lambda>(e, v). v > 0) d
         \<and> \<bar>sum_list (dict_values d) - 1\<bar> \<le> real (length d) / 2 ^ 53
         \<and> length d = length cs"
proof -
  have one: "real (sum_list (map snd cs)) / real t = 1"
    unfolding assms(3) using assms(1) by simp
  have "\<bar>sum_list (dict_values d) - 1\<bar> \<le> real (length cs) / 2 ^ 53"
    using float_quotients_sum [OF assms(1), of cs] unfolding assms(5) dict_values_def one .
  then show ?thesis
    using assms(4) float_quotients_positive [OF assms(1,2)] by (simp add: assms(5))
qed

lemma float_pair:
  "[(a, float_div 8 10), (b, float_div 2 10)] \<noteq> []
   \<and> list_all (\<lambda>(e, v). v > 0) [(a, float_div 8 10), (b, float_div 2 10)]
   \<and> \<bar>sum_list (dict_values [(a, float_div 8 10), (b, float_div 2 10)]) - 1\<bar>
       \<le> real (length [(a, float_div 8 10), (b, float_div 2 10)]) / 2 ^ 53
   \<and> length [(a, float_div 8 10), (b, float_div 2 10)] \<le> 10"
  using float_distribution [of 10 "[(a, 8), (b, 2)]" "[(a, float_div 8 10), (b, float_div 2 10)]"]
  by simp

lemma float_triple:
  "[(a, float_div 3 10), (b, float_div 3 10), (c, float_div 4 10)] \<noteq> []
   \<and> list_all (\<lambda>(e, v). v > 0) [(a, float_div 3 10), (b, float_div 3 10), (c, float_div 4 10)]
   \<and> \<bar>sum_list (dict_values [(a, float_div 3 10), (b, float_div 3 10), (c, float_div 4 10)]) - 1\<bar>
       \<le> real (length [(a, float_div 3 10), (b, float_div 3 10), (c, float_div 4 10)]) / 2 ^ 53
   \<and> length [(a, float_div 3 10), (b, float_div 3 10), (c, float_div 4 10)] \<le> 10"
  using float_distribution [of 10 "[(a, 3), (b, 3), (c, 4)]"
      "[(a, float_div 3 10), (b, float_div 3 10), (c, float_div 4 10)]"]
  by simp


lemma length_emotion_keywords: "length emotion_keywords = 10"
  by (simp add: emotion_keywords_def)

lemma extract_emotions_from_query_props:
  "extract_emotions_from_query P query \<noteq> []
   \<and> list_all (\<lambda>(e, v). v > 0) (extract_emotions_from_query P query)
   \<and> \<bar>sum_list (dict_values (extract_emotions_from_query P query)) - 1\<bar>
       \<le> real (length (extract_emotions_from_query P query)) / 2 ^ 53
   \<and> length (extract_emotions_from_query P query) \<le> 10"
proof -
  define good :: "(ustr, real) dict \<Rightarrow> bool" where
    "good d = (d \<noteq> [] \<and> list_all (\<lambda>(e, v). v > 0) d
               \<and> \<bar>sum_list (dict_values d) - 1\<bar> \<le> real (length d) / 2 ^ 53
               \<and> length d \<le> 10)" for d
  define counts where
    "counts = map (\<lambda>(emotion, ks). (emotion, keyword_hits P query ks)) emotion_keywords"
  define t where "t = sum_list (dict_values counts)"
  define cs where "cs = filter (\<lambda>(emotion, count). count > 0) counts"
  define chain :: "(ustr, real) dict" where
    "chain =
       (if any_in [[23396, 29420], [23490, 23518], [26080, 32842]] query
         then [(asc ''loneliness'', float_div 8 10), (asc ''sadness'', float_div 2 10)]
         else if any_in [[24320, 24515], [24555, 20048], [39640, 20852]] query
         then [(asc ''joy'', float_div 8 10), (asc ''love'', float_div 2 10)]
         else if any_in [[24754, 20260], [38590, 36807], [20260, 24515]] query
         then [(asc ''sadness'', float_div 8 10), (asc ''loneliness'', float_div 2 10)]
         else if any_in [[32039, 24352], [21050, 28608], [24778, 24730]] query
         then [(asc ''tension'', float_div 8 10), (asc ''fear'', float_div 2 10)]
         else if any_in [[29233, 24773], [28010, 28459], [29980, 34588]] query
         then [(asc ''love'', float_div 8 10), (asc ''joy'', float_div 2 10)]
         else [(asc ''joy'', float_div 3 10), (asc ''hope'', float_div 3 10),
               (asc ''inspiration'', float_div 4 10)])"
  have unfold: "extract_emotions_from_query P query =
      (if t > 0 then map (\<lambda>(emotion, count). (emotion, float_div count t)) cs else chain)"
    unfolding extract_emotions_from_query_def Let_def counts_def [symmetric]
      t_def [symmetric] cs_def [symmetric] chain_def [symmetric]
    by (rule refl)
  have ifI: "good (if c then a else b)" if "good a" "good b" for c a b
    using that by simp
  have pair: "good [(a, float_div 8 10), (b, float_div 2 10)]" for a b
    unfolding good_def by (rule float_pair)
  have triple: "good [(a, float_div 3 10), (b, float_div 3 10), (c, float_div 4 10)]" for a b c
    unfolding good_def by (rule float_triple)
  have chain: "good chain"
    unfolding chain_def by (intro ifI pair triple)
  have "good (extract_emotions_from_query P query)"
  proof (cases "t > 0")
    case False
    then show ?thesis unfolding unfold using chain by (simp only: if_False)
  next
    case True
    have pos: "list_all (\<lambda>(e, c). c > 0) cs"
      unfolding cs_def by (simp add: list_all_iff)
    have sum: "sum_list (map snd cs) = t"
      unfolding cs_def t_def dict_values_def by (rule sum_filter_positive)
    have ne: "cs \<noteq> []"
      using True sum by auto
    have len: "length cs \<le> 10"
      unfolding cs_def counts_def
      using length_filter_le [of "\<lambda>(emotion, count). count > 0"
          "map (\<lambda>(emotion, ks). (emotion, keyword_hits P query ks)) emotion_keywords"]
      by (simp add: length_emotion_keywords)
    from float_distribution [OF True pos sum ne refl] len
    have "good (map (\<lambda>(emotion, count). (emotion, float_div count t)) cs)"
      unfolding good_def by simp
    with True show ?thesis unfolding unfold by (simp only: if_True)
  qed
  then show ?thesis unfolding good_def .
qed

lemma doublings_1_6: "doublings 1 6 = 3"
  by (simp add: doublings.simps)

lemma doublings_4_6: "doublings 4 6 = 1"
  by (simp add: doublings.simps)

lemma float_div_1_6: "float_div 1 6 = 6004799503160661 / 36028797018963968"
  unfolding float_div_def Let_def doublings_1_6
  by (simp add: round_half_even_def Let_def)

lemma float_div_Suc0_6: "float_div (Suc 0) 6 = 6004799503160661 / 36028797018963968"
  using float_div_1_6 by simp

lemma float_div_4_6: "float_div 4 6 = 6004799503160661 / 9007199254740992"
  unfolding float_div_def Let_def doublings_4_6
  by (simp add: round_half_even_def Let_def)

lemma hits_mixed_query:
  "map (\<lambda>(emotion, ks). (emotion, keyword_hits basic_platform
          [24320, 24515, 24754, 20260, 38590, 36807, 20260, 24515, 24551, 37057, 24868, 24594] ks))
       emotion_keywords
   = [(asc ''joy'', 1), (asc ''sadness'', 4), (asc ''anger'', 1), (asc ''fear'', 0),
      (asc ''love'', 0), (asc ''hope'', 0), (asc ''loneliness'', 0), (asc ''inspiration'', 0),
      (asc ''tension'', 0), (asc ''peace'', 0)]"
  by (simp add: keyword_hits_def emotion_keywords_def startswith_def basic_platform_def
      basic_lower_def)

lemma extract_mixed_query:
  "extract_emotions_from_query basic_platform
     [24320, 24515, 24754, 20260, 38590, 36807, 20260, 24515, 24551, 37057, 24868, 24594]
   = [(asc ''joy'', 6004799503160661 / 36028797018963968),
      (asc ''sadness'', 6004799503160661 / 9007199254740992),
      (asc ''anger'', 6004799503160661 / 36028797018963968)]"
  unfolding extract_emotions_from_query_def Let_def hits_mixed_query
  by (simp add: dict_values_def float_div_Suc0_6 float_div_4_6)


lemma mixed_sum:
  "sum_list (dict_values (extract_emotions_from_query basic_platform
     [24320, 24515, 24754, 20260, 38590, 36807, 20260, 24515, 24551, 37057, 24868, 24594]))
   = 1 - 1 / 2 ^ 54"
  unfolding extract_mixed_query by (simp add: dict_values_def)

text \<open>
  Claim C10, as amended. For every query the extracted emotions are a non-empty mapping of
  at most ten positive values. Each value is the double nearest to a quotient, so their
  sum is 1 only up to the rounding of the divisions: it differs from 1 by at most
  \<open>n / 2 ^ 53\<close> for \<open>n\<close> values. The mood-based recommendation therefore always is the
  emotion search on the extracted emotions and never reaches its semantic-search branch.
\<close>

theorem mood_query_emotions_amended:
  "extract_emotions_from_query P query \<noteq> []
   \<and> list_all (\<lambda>(e, v). v > 0) (extract_emotions_from_query P query)
   \<and> \<bar>sum_list (dict_values (extract_emotions_from_query P query)) - 1\<bar>
       \<le> real (length (extract_emotions_from_query P query)) / 2 ^ 53
   \<and> length (extract_emotions_from_query P query) \<le> 10
   \<and> get_recommendation_by_mood L P r query top_k
       = emotion_search L r (extract_emotions_from_query P query) top_k"
  using extract_emotions_from_query_props [of P query]
  by (simp add: get_recommendation_by_mood_def Let_def)

text \<open>
  The claim C10 as stated fails here: a query with one keyword of joy, four of sadness and
  one of anger yields the doubles nearest to 1/6, 4/6 and 1/6, which sum to
  \<open>1 - 1 / 2 ^ 54\<close> and not to 1.
\<close>

theorem mood_query_sum_counterexample:
  "extract_emotions_from_query basic_platform
     [24320, 24515, 24754, 20260, 38590, 36807, 20260, 24515, 24551, 37057, 24868, 24594]
   = [(asc ''joy'', 6004799503160661 / 36028797018963968),
      (asc ''sadness'', 6004799503160661 / 9007199254740992),
      (asc ''anger'', 6004799503160661 / 36028797018963968)]
   \<and> sum_list (dict_values (extract_emotions_from_query basic_platform
        [24320, 24515, 24754, 20260, 38590, 36807, 20260, 24515, 24551, 37057, 24868, 24594]))
     \<noteq> 1"
  unfolding extract_mixed_query by (simp add: dict_values_def)

section \<open>Emotion search: the target vector and the result\<close>

text \<open>
  The target vector that \<open>emotion_search\<close> builds from the converted labels is the one
  the specification describes: the conversion keeps, for every category, the clamped
  intensity of the last label translating to it, and the filling of the vector writes
  each of them to its column.
\<close>

lemma map_of_dict_set: "map_of (dict_set d k v) = (map_of d)(k \<mapsto> v)"
  by (induction d) (auto simp: fun_eq_iff)

lemma map_of_rev_distinct: "distinct (map fst d) \<Longrightarrow> map_of (rev d) = map_of d"
proof (rule ext)
  fix x
  assume d: "distinct (map fst d)"
  then have r: "distinct (map fst (rev d))"
    by (simp add: rev_map [symmetric])
  show "map_of (rev d) x = map_of d x"
  proof (cases "map_of d x")
    case None
    then have "map_of (rev d) x = None"
      unfolding map_of_eq_None_iff by simp
    then show ?thesis
      using None by simp
  next
    case (Some y)
    then have "(x, y) \<in> set (rev d)"
      using map_of_SomeD by fastforce
    then show ?thesis
      using Some map_of_eq_Some_iff [OF r, of x y] by simp
  qed
qed

lemma nth_index_of: "x \<in> set xs \<Longrightarrow> xs ! index_of xs x = x"
  by (induction xs) auto

lemma index_of_bound: "x \<in> set xs \<Longrightarrow> index_of xs x < length xs"
  by (induction xs) auto

lemma index_of_nth: "distinct xs \<Longrightarrow> i < length xs \<Longrightarrow> index_of xs (xs ! i) = i"
proof (induction xs arbitrary: i)
  case Nil
  then show ?case by simp
next
  case (Cons a xs)
  then show ?case by (cases i) auto
qed

lemma fill_target_length: "length (fill_target labels d vec) = length vec"
  by (induction d arbitrary: vec) auto

lemma fill_target_nth:
  assumes "distinct labels" and "length vec = length labels" and "i < length labels"
  shows "fill_target labels d vec ! i
           = (case map_of (rev d) (labels ! i) of None \<Rightarrow> vec ! i | Some v \<Rightarrow> v)"
  using assms(2)
proof (induction d arbitrary: vec)
  case Nil
  show ?case by simp
next
  case (Cons item d)
  obtain emotion intensity where item: "item = (emotion, intensity)"
    by (cases item)
  define vec' where "vec' = (if emotion \<in> set labels
                              then vec[index_of labels emotion := intensity] else vec)"
  have len: "length vec' = length labels"
    using Cons.prems by (simp add: vec'_def)
  have step: "vec' ! i = (if labels ! i = emotion then intensity else vec ! i)"
  proof (cases "labels ! i = emotion")
    case True
    then have "emotion \<in> set labels" and "index_of labels emotion = i"
      using assms(1,3) index_of_nth [of labels i] by auto
    then show ?thesis
      using True assms(3) Cons.prems by (simp add: vec'_def)
  next
    case False
    have "index_of labels emotion \<noteq> i" if "emotion \<in> set labels"
      using nth_index_of [OF that] False by auto
    then show ?thesis
      using False by (simp add: vec'_def)
  qed
  have "fill_target labels (item # d) vec ! i = fill_target labels d vec' ! i"
    by (simp add: item vec'_def)
  also have "\<dots> = (case map_of (rev d) (labels ! i) of None \<Rightarrow> vec' ! i | Some v \<Rightarrow> v)"
    by (rule Cons.IH [OF len])
  also have "\<dots> = (case map_of (rev (item # d)) (labels ! i) of None \<Rightarrow> vec ! i | Some v \<Rightarrow> v)"
    by (simp add: item step map_add_def split: option.splits)
  finally show ?case .
qed

lemma convert_emotions_keys:
  "distinct (map fst c) \<Longrightarrow> distinct (map fst (fst (convert_emotions labels target (c, w))))"
proof (induction target arbitrary: c w)
  case Nil
  then show ?case by simp
next
  case (Cons item target)
  obtain label v where item: "item = (label, v)"
    by (cases item)
  show ?case
    using Cons.prems
    by (cases "dict_get emotion_mapping label label \<in> set labels")
       (simp_all add: item Let_def Cons.IH distinct_dict_set)
qed

lemma convert_emotions_map_of:
  "map_of (fst (convert_emotions labels target (c, w)))
     = map_of c ++ (map_of (rev (map (\<lambda>(label, intensity).
                                        (translate_label label, max 0 (min 1 intensity))) target))
                    |` set labels)"
proof (induction target arbitrary: c w)
  case Nil
  show ?case by simp
next
  case (Cons item target)
  obtain label v where item: "item = (label, v)"
    by (cases item)
  show ?case
  proof (cases "dict_get emotion_mapping label label \<in> set labels")
    case True
    show ?thesis
      using True
      by (simp add: item Let_def Cons.IH map_of_dict_set translate_label_def)
         (auto simp: fun_eq_iff map_add_def restrict_map_def split: option.splits)
  next
    case False
    show ?thesis
      using False
      by (simp add: item Let_def Cons.IH translate_label_def)
         (auto simp: fun_eq_iff map_add_def restrict_map_def split: option.splits)
  qed
qed

lemma fill_converted:
  "fill_target fixed_emotion_labels
     (fst (convert_emotions fixed_emotion_labels target ([], [])))
     (replicate (length fixed_emotion_labels) 0)
   = map (spec_target_entry target) fixed_emotion_labels"
proof (rule nth_equalityI)
  show "length (fill_target fixed_emotion_labels
     (fst (convert_emotions fixed_emotion_labels target ([], [])))
     (replicate (length fixed_emotion_labels) 0))
     = length (map (spec_target_entry target) fixed_emotion_labels)"
    by (simp add: fill_target_length)
next
  fix i
  assume "i < length (fill_target fixed_emotion_labels
     (fst (convert_emotions fixed_emotion_labels target ([], [])))
     (replicate (length fixed_emotion_labels) 0))"
  then have i: "i < length fixed_emotion_labels"
    by (simp add: fill_target_length)
  define conv where "conv = fst (convert_emotions fixed_emotion_labels target ([], []))"
  have d: "distinct (map fst conv)"
    unfolding conv_def by (rule convert_emotions_keys) simp
  have m: "map_of (rev conv) (fixed_emotion_labels ! i)
        = map_of (rev (map (\<lambda>(label, intensity).
                               (translate_label label, max 0 (min 1 intensity))) target))
            (fixed_emotion_labels ! i)"
    using i map_of_rev_distinct [OF d]
    by (simp add: conv_def convert_emotions_map_of map_add_def restrict_map_def)
  have "fill_target fixed_emotion_labels conv (replicate (length fixed_emotion_labels) 0) ! i
      = (case map_of (rev conv) (fixed_emotion_labels ! i) of
           None \<Rightarrow> replicate (length fixed_emotion_labels) 0 ! i | Some v \<Rightarrow> v)"
    using fixed_emotion_labels_distinct i by (intro fill_target_nth) simp_all
  also have "\<dots> = spec_target_entry target (fixed_emotion_labels ! i)"
    unfolding m spec_target_entry_def using i by (simp split: option.splits)
  finally show "fill_target fixed_emotion_labels
     (fst (convert_emotions fixed_emotion_labels target ([], [])))
     (replicate (length fixed_emotion_labels) 0) ! i
     = map (spec_target_entry target) fixed_emotion_labels ! i"
    using i by (simp add: conv_def)
qed

lemma target_vector_as_specified:
  "target_vector_of fixed_emotion_labels
     (fst (convert_emotions fixed_emotion_labels target ([], [])))
   = spec_target_vector target"
  unfolding target_vector_of_def spec_target_vector_def fill_converted by (rule refl)

lemma convert_emotions_dropped:
  "snd (convert_emotions fixed_emotion_labels target ([], []))
     = filter (\<lambda>label. \<not> maps_to_category label) (map fst target)"
  using convert_emotions_split [of fixed_emotion_labels target "[]" "[]"]
  by (simp add: maps_to_category_def [abs_def])

lemma emotion_similarity_as_specified:
  "emotion_similarity target m
     = cosine_similarity (spec_target_vector target) (emotion_row fixed_emotion_labels m)"
  by (simp add: emotion_similarity_def target_vector_as_specified)

lemma emotion_search_no_records:
  assumes "\<not> list_all (\<lambda>x. x = 0) (spec_target_vector target)"
  shows "emotion_search L (index_movies L r0 []) target top_k = Inl ValueError"
  using assms
  by (simp add: emotion_search_def indexed_state Let_def case_prod_beta
      target_vector_as_specified)

lemma valid_stable_argsort: "valid_argsort stable_argsort"
  by (simp add: valid_argsort_def stable_argsort_def lessThan_atLeast0)

text \<open>
  Claim C4. On an indexed recommender, emotion search reports and drops exactly the
  labels of the query that do not map, directly or by the alias table, into the ten
  categories, and goes on with the remaining ones: its target vector is the vector of the
  specification, which holds for every category the clamped intensity of the last label
  that translates to it, scaled to unit length. If that vector is all zeros the result
  list is empty; otherwise the result lists the records ranked by the cosine similarity
  of their emotion vectors to it.
\<close>

theorem unknown_labels_dropped:
  assumes "valid_argsort (argsort L)"
  shows "target_vector_of fixed_emotion_labels
           (fst (convert_emotions fixed_emotion_labels target ([], [])))
         = spec_target_vector target
   \<and> snd (convert_emotions fixed_emotion_labels target ([], []))
         = filter (\<lambda>label. \<not> maps_to_category label) (map fst target)
   \<and> emotion_search L (index_movies L r0 ms) target top_k
       = (if list_all (\<lambda>x. x = 0) (spec_target_vector target)
          then Inr \<lparr>warnings = filter (\<lambda>label. \<not> maps_to_category label) (map fst target),
                    results = []\<rparr>
          else if ms = [] then Inl ValueError
          else Inr \<lparr>warnings = filter (\<lambda>label. \<not> maps_to_category label) (map fst target),
                    results =
                      map (\<lambda>idx. (\<lparr>hit_movie = ms ! idx,
                                     semantic_score = 0,
                                     emotion_score =
                                       cosine_similarity (spec_target_vector target)
                                         (emotion_row fixed_emotion_labels (ms ! idx))\<rparr>,
                                   cosine_similarity (spec_target_vector target)
                                     (emotion_row fixed_emotion_labels (ms ! idx))))
                        (rev (slice_last (min top_k (int (length ms)))
                                (argsort L
                                   (map (\<lambda>m. cosine_similarity (spec_target_vector target)
                                                (emotion_row fixed_emotion_labels m)) ms))))\<rparr>)"
proof -
  let ?r = "index_movies L r0 ms"
  let ?zero = "list_all (\<lambda>x. x = 0) (spec_target_vector target)"
  have zero: "emotion_search L ?r target top_k
                = Inr \<lparr>warnings = filter (\<lambda>label. \<not> maps_to_category label) (map fst target),
                       results = []\<rparr>" if ?zero
    using emotion_search_zero_target [of ?r target L top_k] that
    by (simp add: indexed_state target_vector_as_specified convert_emotions_dropped)
  have none: "emotion_search L ?r target top_k = Inl ValueError" if "\<not> ?zero" and "ms = []"
    using emotion_search_no_records [of target L r0 top_k] that by simp
  have some: "emotion_search L ?r target top_k
       = Inr \<lparr>warnings = filter (\<lambda>label. \<not> maps_to_category label) (map fst target),
              results =
                map (\<lambda>idx. (\<lparr>hit_movie = ms ! idx,
                               semantic_score = 0,
                               emotion_score =
                                 cosine_similarity (spec_target_vector target)
                                   (emotion_row fixed_emotion_labels (ms ! idx))\<rparr>,
                             cosine_similarity (spec_target_vector target)
                               (emotion_row fixed_emotion_labels (ms ! idx))))
                  (rev (slice_last (min top_k (int (length ms)))
                          (argsort L
                             (map (\<lambda>m. cosine_similarity (spec_target_vector target)
                                          (emotion_row fixed_emotion_labels m)) ms))))\<rparr>"
    if "\<not> ?zero" and "ms \<noteq> []"
    using emotion_search_indexed [OF assms that(2), of target r0 top_k] that(1)
    unfolding target_vector_as_specified convert_emotions_dropped
      emotion_similarity_as_specified [abs_def]
    by simp
  show ?thesis
    using zero none some
    by (simp add: target_vector_as_specified convert_emotions_dropped)
qed

text \<open>
  Evaluation on two records, built from the overviews "happy laughter" and "tear fear
  adore adore", and on the query that gives 1.0 to the unknown label "wonder" and 3.0 to
  the Chinese alias U+5FEB U+4E50 of joy.
\<close>

lemma target_wonder_joy:
  "spec_target_vector [(asc ''wonder'', 1), ([24555, 20048], 3)] = [1, 0, 0, 0, 0, 0, 0, 0, 0, 0]"
  by (simp add: spec_target_vector_def spec_target_entry_def translate_label_def dict_get_def
      emotion_mapping_def fixed_emotion_labels_def l2_norm_def asc_def Let_def)

lemma categories_wonder_joy:
  "\<not> maps_to_category (asc ''wonder'') \<and> maps_to_category [24555, 20048]"
  by (simp add: maps_to_category_def dict_get_def emotion_mapping_def fixed_emotion_labels_def
      asc_def)

lemma row_happy_laughter:
  "emotion_row fixed_emotion_labels
     (build_movie_data basic_platform 1 [] (asc ''happy laughter'') [] [] [])
   = [1, 0, 0, 0, 0, 0, 0, 0, 0, 0]"
  unfolding emotion_row_def profile_built_happy_laughter
  by (simp add: fixed_emotion_labels_def dict_get_def asc_def)

lemma row_tear_fear_adore:
  "emotion_row fixed_emotion_labels
     (build_movie_data basic_platform 1 [] (asc ''tear fear adore adore'') [] [] [])
   = [0, 167 / 1000, 0, 167 / 1000, 667 / 1000, 0, 0, 0, 0, 0]"
  unfolding emotion_row_def profile_tear_fear_adore
  by (simp add: fixed_emotion_labels_def dict_get_def asc_def)

lemma similarity_joy_joy:
  "cosine_similarity [1, 0, 0, 0, 0, 0, 0, 0, 0, 0] [1, 0, 0, 0, 0, 0, 0, 0, 0, 0] = 1"
  by (simp add: cosine_similarity_def unit_row_def dot_def l2_norm_def Let_def)

lemma similarity_joy_other:
  "cosine_similarity [1, 0, 0, 0, 0, 0, 0, 0, 0, 0]
     [0, 167 / 1000, 0, 167 / 1000, 667 / 1000, 0, 0, 0, 0, 0] = 0"
  by (simp add: cosine_similarity_def unit_row_def dot_def l2_norm_def Let_def)

lemma argsort_one_zero: "stable_argsort [0, 1] = [0, 1]"
  by (simp add: stable_argsort_def upt_rec)


lemma target_wonder_nothing:
  "spec_target_vector [(asc ''wonder'', 1), ([24555, 20048], 0)] = [0, 0, 0, 0, 0, 0, 0, 0, 0, 0]"
  by (simp add: spec_target_vector_def spec_target_entry_def translate_label_def dict_get_def
      emotion_mapping_def fixed_emotion_labels_def l2_norm_def asc_def Let_def)

lemma argsort_toy_libraries: "argsort toy_libraries = stable_argsort"
  by (simp add: toy_libraries_def)

theorem unknown_labels_dropped_witness:
  "valid_argsort (argsort toy_libraries)
   \<and> spec_target_vector [(asc ''wonder'', 1), ([24555, 20048], 3)] = [1, 0, 0, 0, 0, 0, 0, 0, 0, 0]
   \<and> emotion_search toy_libraries
         (index_movies toy_libraries init_recommender
            [build_movie_data basic_platform 1 [] (asc ''tear fear adore adore'') [] [] [],
             build_movie_data basic_platform 1 [] (asc ''happy laughter'') [] [] []])
         [(asc ''wonder'', 1), ([24555, 20048], 3)] 5
       = Inr \<lparr>warnings = [asc ''wonder''],
              results =
                [(\<lparr>hit_movie = build_movie_data basic_platform 1 [] (asc ''happy laughter'') [] [] [],
                   semantic_score = 0, emotion_score = 1\<rparr>, 1),
                 (\<lparr>hit_movie = build_movie_data basic_platform 1 [] (asc ''tear fear adore adore'') [] [] [],
                   semantic_score = 0, emotion_score = 0\<rparr>, 0)]\<rparr>
   \<and> emotion_search toy_libraries
         (index_movies toy_libraries init_recommender
            [build_movie_data basic_platform 1 [] (asc ''tear fear adore adore'') [] [] [],
             build_movie_data basic_platform 1 [] (asc ''happy laughter'') [] [] []])
         [(asc ''wonder'', 1), ([24555, 20048], 0)] 5
       = Inr \<lparr>warnings = [asc ''wonder''], results = []\<rparr>"
proof -
  have v: "valid_argsort (argsort toy_libraries)"
    unfolding argsort_toy_libraries by (rule valid_stable_argsort)
  show ?thesis
    using v
      unknown_labels_dropped [where L = toy_libraries
          and target = "[(asc ''wonder'', 1), ([24555, 20048], 3)]"
          and ?r0.0 = init_recommender
          and ms = "[build_movie_data basic_platform 1 [] (asc ''tear fear adore adore'') [] [] [],
            build_movie_data basic_platform 1 [] (asc ''happy laughter'') [] [] []]"
          and top_k = 5, OF v, THEN conjunct2, THEN conjunct2]
      unknown_labels_dropped [where L = toy_libraries
          and target = "[(asc ''wonder'', 1), ([24555, 20048], 0)]"
          and ?r0.0 = init_recommender
          and ms = "[build_movie_data basic_platform 1 [] (asc ''tear fear adore adore'') [] [] [],
            build_movie_data basic_platform 1 [] (asc ''happy laughter'') [] [] []]"
          and top_k = 5, OF v, THEN conjunct2, THEN conjunct2]
    by (simp add: target_wonder_joy target_wonder_nothing categories_wonder_joy
        row_happy_laughter row_tear_fear_adore similarity_joy_joy similarity_joy_other
        argsort_toy_libraries argsort_one_zero slice_last_def)
qed

end
